theory Spec2Isabelle
  imports Complex_Main
begin

section \<open>Profile completion score\<close>

text \<open>
  The scorer is the arithmetic part of \<^verbatim>\<open>updateProfileCompletion\<close> in
  \<^verbatim>\<open>src/controllers/user.controller.ts\<close> (lines 1084 to 1141). It reads one row of
  \<^verbatim>\<open>user_profiles\<close> and the four counts of the count query.

  A text column arrives in JavaScript as a string or \<^verbatim>\<open>null\<close>; the
  \<^verbatim>\<open>years_of_experience\<close> column is a number or \<^verbatim>\<open>null\<close> (the seeder inserts
  integers from 0 to 20 and the controllers type it as \<^verbatim>\<open>number\<close>). The counts are
  results of \<^verbatim>\<open>COUNT(*)\<close>, natural numbers; JavaScript coerces them to numbers in
  every comparison and product the scorer applies to them.
\<close>

datatype jsval = JNull | JStr string | JNum int

fun truthy :: "jsval \<Rightarrow> bool" where
  "truthy JNull = False"
| "truthy (JStr s) = (s \<noteq> [])"
| "truthy (JNum n) = (n \<noteq> 0)"

record profile =
  user_id :: nat
  job_title :: "string option"
  location :: "string option"
  profile_image_url :: "string option"
  profile_summary :: "string option"
  professional_summary :: "string option"
  years_of_experience :: "int option"
  experience_level :: "string option"
  primary_industry :: "string option"
  profile_completion :: int
  website_url :: "string option"
  linkedin_url :: "string option"
  github_url :: "string option"

record counts =
  experience_count :: nat
  education_count :: nat
  skill_count :: nat
  resume_count :: nat

datatype column =
    Job_title | Location | Years_of_experience | Experience_level | Primary_industry
  | Profile_summary | Professional_summary
  | Website_url | Linkedin_url | Github_url

definition js_text :: "string option \<Rightarrow> jsval" where
  "js_text v = (case v of None \<Rightarrow> JNull | Some s \<Rightarrow> JStr s)"

definition js_num :: "int option \<Rightarrow> jsval" where
  "js_num v = (case v of None \<Rightarrow> JNull | Some n \<Rightarrow> JNum n)"

text \<open>\<^verbatim>\<open>profile[key]\<close>: the value of a selected column in the row.\<close>

fun get_column :: "'a profile_scheme \<Rightarrow> column \<Rightarrow> jsval" where
  "get_column p Job_title = js_text (job_title p)"
| "get_column p Location = js_text (location p)"
| "get_column p Years_of_experience = js_num (years_of_experience p)"
| "get_column p Experience_level = js_text (experience_level p)"
| "get_column p Primary_industry = js_text (primary_industry p)"
| "get_column p Profile_summary = js_text (profile_summary p)"
| "get_column p Professional_summary = js_text (professional_summary p)"
| "get_column p Website_url = js_text (website_url p)"
| "get_column p Linkedin_url = js_text (linkedin_url p)"
| "get_column p Github_url = js_text (github_url p)"

text \<open>The \<^verbatim>\<open>weights\<close> object; each group keeps the key order of the source.\<close>

definition weights_basicInfo :: "(column \<times> rat) list" where
  "weights_basicInfo =
     [(Job_title, 5), (Location, 5), (Years_of_experience, 5), (Experience_level, 5),
      (Primary_industry, 5)]"

definition weights_summaries :: "(column \<times> rat) list" where
  "weights_summaries = [(Profile_summary, 10), (Professional_summary, 10)]"

definition weights_links :: "(column \<times> rat) list" where
  "weights_links = [(Website_url, 3), (Linkedin_url, 4), (Github_url, 3)]"

definition weights_profileImage :: rat where "weights_profileImage = 5"
definition weights_experience :: rat where "weights_experience = 15"
definition weights_education :: rat where "weights_education = 10"
definition weights_skills :: rat where "weights_skills = 15"
definition weights_resume :: rat where "weights_resume = 10"

text \<open>
  \<^verbatim>\<open>Object.keys(group).forEach(key => { if (profile[key]) acc += group[key] })\<close>:
  the loop over the keys of one weight group, adding onto the running total.
\<close>

fun forEach_key :: "'a profile_scheme \<Rightarrow> (column \<times> rat) list \<Rightarrow> rat \<Rightarrow> rat" where
  "forEach_key p [] acc = acc"
| "forEach_key p ((key, w) # rest) acc =
     forEach_key p rest (if truthy (get_column p key) then acc + w else acc)"

definition linkScore :: "'a profile_scheme \<Rightarrow> rat" where
  "linkScore p = forEach_key p weights_links 0"

text \<open>
  The value of \<^verbatim>\<open>completionPercentage\<close> before rounding. Every summand is a multiple
  of one half and far below \<open>2^53\<close>, so the double arithmetic of the source is exact and
  the rationals model it.
\<close>

definition completionPercentage :: "'a profile_scheme \<Rightarrow> counts \<Rightarrow> rat" where
  "completionPercentage p c =
     (let cp = forEach_key p weights_basicInfo 0;
          cp = forEach_key p weights_summaries cp;
          cp = cp + min (linkScore p) 10;
          cp = (if truthy (js_text (profile_image_url p)) then cp + weights_profileImage else cp);
          cp = (if experience_count c > 0
                then cp + min weights_experience (5 + of_nat (experience_count c) * 2) else cp);
          cp = (if education_count c > 0
                then cp + min weights_education (5 + of_nat (education_count c) * (5 / 2)) else cp);
          cp = (if skill_count c > 0
                then cp + min weights_skills (3 + of_nat (skill_count c) * 1) else cp);
          cp = (if resume_count c > 0 then cp + weights_resume else cp)
      in cp)"

text \<open>\<^verbatim>\<open>Math.round\<close> rounds to the nearest integer, a half towards plus infinity.\<close>

definition Math_round :: "rat \<Rightarrow> int" where
  "Math_round x = \<lfloor>x + 1 / 2\<rfloor>"

definition finalPercentage :: "'a profile_scheme \<Rightarrow> counts \<Rightarrow> int" where
  "finalPercentage p c = max 0 (min 100 (Math_round (completionPercentage p c)))"

subsection \<open>The score as the specification words it\<close>

text \<open>
  The specification gives points for fields that are non-empty and links that are
  present. A text value is non-empty when it is neither \<^verbatim>\<open>null\<close> nor the empty
  string; a number is non-empty when it is not \<^verbatim>\<open>null\<close>.
\<close>

definition non_empty_text :: "string option \<Rightarrow> bool" where
  "non_empty_text v = (case v of None \<Rightarrow> False | Some s \<Rightarrow> s \<noteq> [])"

definition non_empty_num :: "int option \<Rightarrow> bool" where
  "non_empty_num v = (case v of None \<Rightarrow> False | Some n \<Rightarrow> True)"

definition pts :: "bool \<Rightarrow> rat \<Rightarrow> rat" where
  "pts b w = (if b then w else 0)"

definition count_points :: "counts \<Rightarrow> rat" where
  "count_points c =
     (if experience_count c > 0 then min 15 (5 + 2 * of_nat (experience_count c)) else 0)
   + (if education_count c > 0 then min 10 (5 + (5 / 2) * of_nat (education_count c)) else 0)
   + (if skill_count c > 0 then min 15 (3 + of_nat (skill_count c)) else 0)
   + (if resume_count c > 0 then 10 else 0)"

definition text_points :: "'a profile_scheme \<Rightarrow> rat" where
  "text_points p =
     pts (non_empty_text (job_title p)) 5 + pts (non_empty_text (location p)) 5
   + pts (non_empty_text (experience_level p)) 5 + pts (non_empty_text (primary_industry p)) 5
   + pts (non_empty_text (profile_summary p)) 10
   + pts (non_empty_text (professional_summary p)) 10
   + min 10 (pts (non_empty_text (website_url p)) 3 + pts (non_empty_text (linkedin_url p)) 4
             + pts (non_empty_text (github_url p)) 3)
   + pts (non_empty_text (profile_image_url p)) 5"

text \<open>The sum \<open>S\<close> of the specification, and the sum with the test the code applies to
  the years of experience: the number has to be present and different from zero.\<close>

definition spec_sum :: "'a profile_scheme \<Rightarrow> counts \<Rightarrow> rat" where
  "spec_sum p c =
     text_points p + pts (non_empty_num (years_of_experience p)) 5 + count_points c"

definition truthy_sum :: "'a profile_scheme \<Rightarrow> counts \<Rightarrow> rat" where
  "truthy_sum p c =
     text_points p
   + pts (non_empty_num (years_of_experience p) \<and> years_of_experience p \<noteq> Some 0) 5
   + count_points c"

definition clamp :: "int \<Rightarrow> int \<Rightarrow> int \<Rightarrow> int" where
  "clamp x lo hi = max lo (min hi x)"

definition empty_profile :: profile where
  "empty_profile =
     \<lparr> user_id = 1, job_title = None, location = None, profile_image_url = None,
       profile_summary = None, professional_summary = None, years_of_experience = None,
       experience_level = None, primary_industry = None, profile_completion = 0,
       website_url = None, linkedin_url = None, github_url = None \<rparr>"

definition no_counts :: counts where
  "no_counts = \<lparr> experience_count = 0, education_count = 0, skill_count = 0, resume_count = 0 \<rparr>"

section \<open>The database, the upload directory and the driver\<close>

text \<open>
  The controllers talk to PostgreSQL through \<^verbatim>\<open>pg\<close>: \<^verbatim>\<open>pool.query(text, values)\<close>
  runs one statement on a connection of its own and commits it at once, and
  \<^verbatim>\<open>client.query(text, values)\<close> runs it on the connection that
  \<^verbatim>\<open>pool.connect()\<close> handed out, inside the transaction opened by \<^verbatim>\<open>BEGIN\<close>
  when there is one. Neither the driver nor the schema is part of the repository, so
  both are written out here: the tables with the columns the controllers name, and for
  each SQL text of the controllers its number of placeholders and its effect as a
  function of the value array.
\<close>

datatype sqlval = SNull | SText string | SInt int | SBool bool

record user_row =
  u_id :: nat
  first_name :: string
  last_name :: string

record document =
  doc_id :: nat
  owner_id :: nat
  document_type :: string
  file_name :: string
  storage_url :: string
  file_size_kb :: int
  is_default_resume :: bool

record database =
  users :: "user_row list"
  user_profiles :: "profile list"
  user_documents :: "document list"
  user_experiences :: "(nat \<times> nat) list"
  user_educations :: "(nat \<times> nat) list"
  user_skills :: "(nat \<times> nat \<times> nat) list"

text \<open>
  Of an experience or education row only the pair (id, owner) matters here and of a
  skill assignment the triple (id, owner, skill): the scorer counts rows by owner.
\<close>

datatype stmt =
    BEGIN | COMMIT | ROLLBACK
  | SELECT_profile_image
  | UPDATE_users
  | UPDATE_user_profiles
  | SELECT_updated_profile
  | INSERT_user_documents
  | UPDATE_unset_default
  | SELECT_resume
  | DELETE_user_documents
  | SELECT_counts
  | SELECT_profile
  | UPDATE_profile_completion

text \<open>The highest \<^verbatim>\<open>$n\<close> in each statement text.\<close>

fun placeholders :: "stmt \<Rightarrow> nat" where
  "placeholders BEGIN = 0"
| "placeholders COMMIT = 0"
| "placeholders ROLLBACK = 0"
| "placeholders SELECT_profile_image = 1"
| "placeholders UPDATE_users = 3"
| "placeholders UPDATE_user_profiles = 12"
| "placeholders SELECT_updated_profile = 1"
| "placeholders INSERT_user_documents = 6"
| "placeholders UPDATE_unset_default = 2"
| "placeholders SELECT_resume = 2"
| "placeholders DELETE_user_documents = 2"
| "placeholders SELECT_counts = 1"
| "placeholders SELECT_profile = 1"
| "placeholders UPDATE_profile_completion = 2"

datatype conn = Pool | Client

datatype call = Connect | Sql conn stmt | Unlink

datatype error =
    Failed call
  | Bind_mismatch stmt nat
  | In_failed_transaction stmt

text \<open>
  What the environment does to one run of a handler: \<open>fails c\<close> says that the call
  \<open>c\<close> throws for a reason of its own (a lost connection, a constraint, a file that
  cannot be removed). No handler issues the same statement twice on one connection.
\<close>

type_synonym env = "call \<Rightarrow> bool"

datatype event =
    Connected bool
  | Released
  | Query conn stmt "sqlval list" bool
  | Unlinked string bool

text \<open>
  The state of the world around one Express worker: the committed database; the
  transaction of the checked-out client, if one is open, as its working copy and the
  flag that a statement in it has failed; the files on disk, by their path below the
  project root; and the log of the calls made so far, oldest first.
\<close>

record world =
  committed :: database
  txn :: "(database \<times> bool) option"
  files :: "string set"
  trace :: "event list"

type_synonym 'a io = "world \<Rightarrow> (error + 'a) \<times> world"

definition note_event :: "event \<Rightarrow> world \<Rightarrow> world" where
  "note_event e w = w\<lparr>trace := trace w @ [e]\<rparr>"

definition abort_txn :: "world \<Rightarrow> world" where
  "abort_txn w = w\<lparr>txn := (case txn w of None \<Rightarrow> None | Some (d, a) \<Rightarrow> Some (d, True))\<rparr>"

text \<open>
  \<^verbatim>\<open>pool.query(text, values)\<close>. PostgreSQL rejects a Bind message whose number of
  values differs from the number of parameters of the statement; otherwise the
  statement runs on the committed database and is committed at once.
\<close>

definition pool_query ::
  "env \<Rightarrow> stmt \<Rightarrow> sqlval list \<Rightarrow> (sqlval list \<Rightarrow> database \<Rightarrow> 'r \<times> database) \<Rightarrow> 'r io" where
  "pool_query fails s vals sem w =
     (if fails (Sql Pool s) then (Inl (Failed (Sql Pool s)), note_event (Query Pool s vals False) w)
      else if length vals \<noteq> placeholders s
      then (Inl (Bind_mismatch s (length vals)), note_event (Query Pool s vals False) w)
      else (case sem vals (committed w) of
              (r, d) \<Rightarrow> (Inr r, note_event (Query Pool s vals True) (w\<lparr>committed := d\<rparr>))))"

text \<open>
  \<^verbatim>\<open>client.query(text, values)\<close> for a statement other than the three transaction
  commands. Inside a transaction a failing statement aborts the transaction, and every
  later statement is refused until the transaction ends (\<^verbatim>\<open>current transaction is
  aborted\<close>); the effect of a statement that succeeds stays in the working copy.
\<close>

definition client_query ::
  "env \<Rightarrow> stmt \<Rightarrow> sqlval list \<Rightarrow> (sqlval list \<Rightarrow> database \<Rightarrow> 'r \<times> database) \<Rightarrow> 'r io" where
  "client_query fails s vals sem w =
     (if fails (Sql Client s)
      then (Inl (Failed (Sql Client s)), note_event (Query Client s vals False) (abort_txn w))
      else if length vals \<noteq> placeholders s
      then (Inl (Bind_mismatch s (length vals)), note_event (Query Client s vals False) (abort_txn w))
      else (case txn w of
              None \<Rightarrow>
                (case sem vals (committed w) of
                   (r, d) \<Rightarrow> (Inr r, note_event (Query Client s vals True) (w\<lparr>committed := d\<rparr>)))
            | Some (d0, aborted) \<Rightarrow>
                if aborted
                then (Inl (In_failed_transaction s), note_event (Query Client s vals False) w)
                else (case sem vals d0 of
                        (r, d) \<Rightarrow>
                          (Inr r, note_event (Query Client s vals True) (w\<lparr>txn := Some (d, False)\<rparr>)))))"

definition query ::
  "env \<Rightarrow> conn \<Rightarrow> stmt \<Rightarrow> sqlval list \<Rightarrow> (sqlval list \<Rightarrow> database \<Rightarrow> 'r \<times> database) \<Rightarrow> 'r io" where
  "query fails c s vals sem =
     (case c of Pool \<Rightarrow> pool_query fails s vals sem | Client \<Rightarrow> client_query fails s vals sem)"

text \<open>
  The transaction commands on the client. A command that throws has lost its
  connection, and the server then discards the open transaction. \<^verbatim>\<open>COMMIT\<close> of an
  aborted transaction rolls it back and reports no error; \<^verbatim>\<open>COMMIT\<close> and
  \<^verbatim>\<open>ROLLBACK\<close> outside a transaction only warn.
\<close>

definition client_begin :: "env \<Rightarrow> unit io" where
  "client_begin fails w =
     (if fails (Sql Client BEGIN)
      then (Inl (Failed (Sql Client BEGIN)), note_event (Query Client BEGIN [] False) (w\<lparr>txn := None\<rparr>))
      else (Inr (), note_event (Query Client BEGIN [] True)
                      (case txn w of None \<Rightarrow> w\<lparr>txn := Some (committed w, False)\<rparr> | Some t \<Rightarrow> w)))"

definition client_commit :: "env \<Rightarrow> unit io" where
  "client_commit fails w =
     (if fails (Sql Client COMMIT)
      then (Inl (Failed (Sql Client COMMIT)), note_event (Query Client COMMIT [] False) (w\<lparr>txn := None\<rparr>))
      else (Inr (), note_event (Query Client COMMIT [] True)
                      (case txn w of
                         None \<Rightarrow> w
                       | Some (d, aborted) \<Rightarrow>
                           if aborted then w\<lparr>txn := None\<rparr> else w\<lparr>committed := d, txn := None\<rparr>)))"

definition client_rollback :: "env \<Rightarrow> unit io" where
  "client_rollback fails w =
     (if fails (Sql Client ROLLBACK)
      then (Inl (Failed (Sql Client ROLLBACK)),
            note_event (Query Client ROLLBACK [] False) (w\<lparr>txn := None\<rparr>))
      else (Inr (), note_event (Query Client ROLLBACK [] True) (w\<lparr>txn := None\<rparr>)))"

text \<open>\<^verbatim>\<open>pool.connect()\<close> hands out a client with no transaction open;
  \<^verbatim>\<open>client.release()\<close> gives it back.\<close>

definition pool_connect :: "env \<Rightarrow> unit io" where
  "pool_connect fails w =
     (if fails Connect then (Inl (Failed Connect), note_event (Connected False) w)
      else (Inr (), note_event (Connected True) (w\<lparr>txn := None\<rparr>)))"

definition client_release :: "world \<Rightarrow> world" where
  "client_release w = note_event Released w"

text \<open>\<^verbatim>\<open>fs.existsSync\<close> and \<^verbatim>\<open>fs.unlinkSync\<close>.\<close>

definition existsSync :: "string \<Rightarrow> world \<Rightarrow> bool" where
  "existsSync path w = (path \<in> files w)"

definition unlinkSync :: "env \<Rightarrow> string \<Rightarrow> unit io" where
  "unlinkSync fails path w =
     (if fails Unlink \<or> path \<notin> files w then (Inl (Failed Unlink), note_event (Unlinked path False) w)
      else (Inr (), note_event (Unlinked path True) (w\<lparr>files := files w - {path}\<rparr>)))"

text \<open>Sequencing of awaited calls: the first error ends the block.\<close>

definition and_then :: "'a io \<Rightarrow> ('a \<Rightarrow> 'b io) \<Rightarrow> 'b io" where
  "and_then m f w = (case m w of (Inl e, w1) \<Rightarrow> (Inl e, w1) | (Inr x, w1) \<Rightarrow> f x w1)"

definition return :: "'a \<Rightarrow> 'a io" where
  "return x w = (Inr x, w)"

section \<open>The SQL statements of the controller\<close>

text \<open>Comparison of an id column with a bound value; a value that is not an integer
  (\<^verbatim>\<open>NULL\<close> included) matches no row, for \<^verbatim>\<open>=\<close> and for \<^verbatim>\<open>!=\<close> alike.\<close>

definition is_id :: "sqlval \<Rightarrow> nat \<Rightarrow> bool" where
  "is_id v n = (case v of SInt i \<Rightarrow> i = int n | _ \<Rightarrow> False)"

definition is_other_id :: "sqlval \<Rightarrow> nat \<Rightarrow> bool" where
  "is_other_id v n = (case v of SInt i \<Rightarrow> i \<noteq> int n | _ \<Rightarrow> False)"

text \<open>\<^verbatim>\<open>COALESCE($n, column)\<close> for a text column, a text column that cannot be null and
  an integer column, and a plain \<^verbatim>\<open>$n\<close> written into a text column.\<close>

definition coalesce_text :: "sqlval \<Rightarrow> string option \<Rightarrow> string option" where
  "coalesce_text v old = (case v of SText s \<Rightarrow> Some s | _ \<Rightarrow> old)"

definition coalesce_name :: "sqlval \<Rightarrow> string \<Rightarrow> string" where
  "coalesce_name v old = (case v of SText s \<Rightarrow> s | _ \<Rightarrow> old)"

definition coalesce_int :: "sqlval \<Rightarrow> int option \<Rightarrow> int option" where
  "coalesce_int v old = (case v of SInt n \<Rightarrow> Some n | _ \<Rightarrow> old)"

definition text_or_null :: "sqlval \<Rightarrow> string option" where
  "text_or_null v = (case v of SText s \<Rightarrow> Some s | _ \<Rightarrow> None)"

definition text_of :: "sqlval \<Rightarrow> string" where
  "text_of v = (case v of SText s \<Rightarrow> s | _ \<Rightarrow> [])"

definition int_of :: "sqlval \<Rightarrow> int" where
  "int_of v = (case v of SInt n \<Rightarrow> n | _ \<Rightarrow> 0)"

definition bool_of :: "sqlval \<Rightarrow> bool" where
  "bool_of v = (case v of SBool b \<Rightarrow> b | _ \<Rightarrow> False)"

text \<open>\<^verbatim>\<open>SELECT profile_image_url FROM user_profiles WHERE user_id = $1\<close>\<close>

definition select_profile_image :: "sqlval list \<Rightarrow> database \<Rightarrow> string option list \<times> database" where
  "select_profile_image vals d =
     (map profile_image_url (filter (\<lambda>p. is_id (vals ! 0) (user_id p)) (user_profiles d)), d)"

text \<open>\<^verbatim>\<open>UPDATE users SET first_name = COALESCE($1, first_name),
  last_name = COALESCE($2, last_name) WHERE id = $3\<close>\<close>

definition update_users :: "sqlval list \<Rightarrow> database \<Rightarrow> unit \<times> database" where
  "update_users vals d =
     ((), d\<lparr>users :=
            map (\<lambda>u. if is_id (vals ! 2) (u_id u)
                      then u\<lparr>first_name := coalesce_name (vals ! 0) (first_name u),
                             last_name := coalesce_name (vals ! 1) (last_name u)\<rparr>
                      else u) (users d)\<rparr>)"

text \<open>\<^verbatim>\<open>UPDATE user_profiles SET job_title = COALESCE($1, job_title), ...,
  github_url = COALESCE($10, github_url), profile_image_url = $11 WHERE user_id = $12\<close>\<close>

definition update_user_profiles :: "sqlval list \<Rightarrow> database \<Rightarrow> unit \<times> database" where
  "update_user_profiles vals d =
     ((), d\<lparr>user_profiles :=
            map (\<lambda>p. if is_id (vals ! 11) (user_id p)
                      then p\<lparr>job_title := coalesce_text (vals ! 0) (job_title p),
                             location := coalesce_text (vals ! 1) (location p),
                             profile_summary := coalesce_text (vals ! 2) (profile_summary p),
                             professional_summary :=
                               coalesce_text (vals ! 3) (professional_summary p),
                             years_of_experience :=
                               coalesce_int (vals ! 4) (years_of_experience p),
                             experience_level := coalesce_text (vals ! 5) (experience_level p),
                             primary_industry := coalesce_text (vals ! 6) (primary_industry p),
                             website_url := coalesce_text (vals ! 7) (website_url p),
                             linkedin_url := coalesce_text (vals ! 8) (linkedin_url p),
                             github_url := coalesce_text (vals ! 9) (github_url p),
                             profile_image_url := text_or_null (vals ! 10)\<rparr>
                      else p) (user_profiles d)\<rparr>)"

text \<open>\<^verbatim>\<open>SELECT ... FROM users u LEFT JOIN user_profiles up ON u.id = up.user_id
  WHERE u.id = $1\<close>\<close>

definition select_updated_profile ::
  "sqlval list \<Rightarrow> database \<Rightarrow> (user_row \<times> profile option) list \<times> database" where
  "select_updated_profile vals d =
     (concat (map (\<lambda>u. case filter (\<lambda>p. user_id p = u_id u) (user_profiles d) of
                          [] \<Rightarrow> [(u, None)]
                        | ps \<Rightarrow> map (\<lambda>p. (u, Some p)) ps)
                  (filter (\<lambda>u. is_id (vals ! 0) (u_id u)) (users d))), d)"

text \<open>
  \<^verbatim>\<open>INSERT INTO user_documents (user_id, document_type, file_name, storage_url,
  file_size_kb, is_default_resume) VALUES ($1, $2, $3, $4, $5, $6) RETURNING *\<close>.
  The id column is a serial key: the new row gets an id no row of the table has.
\<close>

definition fresh_id :: "document list \<Rightarrow> nat" where
  "fresh_id ds = Suc (foldr max (map doc_id ds) 0)"

definition insert_document :: "sqlval list \<Rightarrow> database \<Rightarrow> document \<times> database" where
  "insert_document vals d =
     (let new = \<lparr> doc_id = fresh_id (user_documents d),
                  owner_id = nat (int_of (vals ! 0)),
                  document_type = text_of (vals ! 1),
                  file_name = text_of (vals ! 2),
                  storage_url = text_of (vals ! 3),
                  file_size_kb = int_of (vals ! 4),
                  is_default_resume = bool_of (vals ! 5) \<rparr>
      in (new, d\<lparr>user_documents := user_documents d @ [new]\<rparr>))"

text \<open>\<^verbatim>\<open>UPDATE user_documents SET is_default_resume = FALSE
  WHERE user_id = $1 AND id != $2 AND document_type = 'resume'\<close>\<close>

definition unset_default :: "sqlval list \<Rightarrow> database \<Rightarrow> unit \<times> database" where
  "unset_default vals d =
     ((), d\<lparr>user_documents :=
            map (\<lambda>x. if is_id (vals ! 0) (owner_id x) \<and> is_other_id (vals ! 1) (doc_id x)
                         \<and> document_type x = ''resume''
                      then x\<lparr>is_default_resume := False\<rparr> else x) (user_documents d)\<rparr>)"

text \<open>\<^verbatim>\<open>SELECT id, storage_url FROM user_documents
  WHERE id = $1 AND user_id = $2 AND document_type = 'resume'\<close>\<close>

definition select_resume :: "sqlval list \<Rightarrow> database \<Rightarrow> document list \<times> database" where
  "select_resume vals d =
     (filter (\<lambda>x. is_id (vals ! 0) (doc_id x) \<and> is_id (vals ! 1) (owner_id x)
                   \<and> document_type x = ''resume'') (user_documents d), d)"

text \<open>\<^verbatim>\<open>DELETE FROM user_documents WHERE id = $1 AND user_id = $2\<close>; the result is
  \<^verbatim>\<open>rowCount\<close>.\<close>

definition delete_document :: "sqlval list \<Rightarrow> database \<Rightarrow> nat \<times> database" where
  "delete_document vals d =
     (length (filter (\<lambda>x. is_id (vals ! 0) (doc_id x) \<and> is_id (vals ! 1) (owner_id x))
                (user_documents d)),
      d\<lparr>user_documents :=
          filter (\<lambda>x. \<not> (is_id (vals ! 0) (doc_id x) \<and> is_id (vals ! 1) (owner_id x)))
            (user_documents d)\<rparr>)"

text \<open>The four \<^verbatim>\<open>COUNT(*)\<close> subqueries of the count query, for the user \<^verbatim>\<open>$1\<close>.\<close>

definition select_counts :: "sqlval list \<Rightarrow> database \<Rightarrow> counts \<times> database" where
  "select_counts vals d =
     (\<lparr> experience_count = length (filter (\<lambda>(i, u). is_id (vals ! 0) u) (user_experiences d)),
        education_count = length (filter (\<lambda>(i, u). is_id (vals ! 0) u) (user_educations d)),
        skill_count = length (filter (\<lambda>(i, u, s). is_id (vals ! 0) u) (user_skills d)),
        resume_count =
          length (filter (\<lambda>x. is_id (vals ! 0) (owner_id x) \<and> document_type x = ''resume'')
                    (user_documents d)) \<rparr>, d)"

text \<open>\<^verbatim>\<open>SELECT job_title, ..., profile_image_url FROM user_profiles WHERE user_id = $1\<close>\<close>

definition select_profile :: "sqlval list \<Rightarrow> database \<Rightarrow> profile list \<times> database" where
  "select_profile vals d = (filter (\<lambda>p. is_id (vals ! 0) (user_id p)) (user_profiles d), d)"

text \<open>\<^verbatim>\<open>UPDATE user_profiles SET profile_completion = $1 WHERE user_id = $2\<close>\<close>

definition update_completion :: "sqlval list \<Rightarrow> database \<Rightarrow> unit \<times> database" where
  "update_completion vals d =
     ((), d\<lparr>user_profiles :=
            map (\<lambda>p. if is_id (vals ! 1) (user_id p)
                      then p\<lparr>profile_completion := int_of (vals ! 0)\<rparr> else p)
              (user_profiles d)\<rparr>)"

section \<open>The handlers\<close>

datatype payload =
    No_data
  | Resume_row document
  | Profile_row "(user_row \<times> profile option) option"

text \<open>What a handler answers: a status with its data, or \<^verbatim>\<open>next(error)\<close>.\<close>

datatype response = Status nat payload | Next error

text \<open>\<^verbatim>\<open>req.file\<close> as multer leaves it; \<open>file_size\<close> is its \<^verbatim>\<open>size\<close> in bytes. Multer
  has written the file to \<^verbatim>\<open>uploads/\<close> before the handler starts.\<close>

record multer_file =
  originalname :: string
  filename :: string
  file_size :: nat

definition uploads_path :: "string \<Rightarrow> string" where
  "uploads_path name = ''/uploads/'' @ name"

text \<open>\<^verbatim>\<open>path.basename\<close>: the part after the last slash, trailing slashes dropped.\<close>

definition basename :: "string \<Rightarrow> string" where
  "basename p =
     rev (takeWhile (\<lambda>c. c \<noteq> CHR ''/'') (dropWhile (\<lambda>c. c = CHR ''/'') (rev p)))"

text \<open>\<^verbatim>\<open>try { if (fs.existsSync(p)) fs.unlinkSync(p) } catch (unlinkError) { log }\<close>:
  the removal every handler uses; an error of the removal is logged and dropped.\<close>

definition remove_file :: "env \<Rightarrow> string \<Rightarrow> world \<Rightarrow> world" where
  "remove_file fails path w = (if existsSync path w then snd (unlinkSync fails path w) else w)"

subsection \<open>updateProfileCompletion\<close>

definition updateProfileCompletion_try :: "env \<Rightarrow> nat \<Rightarrow> conn \<Rightarrow> unit io" where
  "updateProfileCompletion_try fails userId queryRunner =
     and_then (query fails queryRunner SELECT_counts [SInt (int userId)] select_counts)
       (\<lambda>counts.
     and_then (query fails queryRunner SELECT_profile [SInt (int userId)] select_profile)
       (\<lambda>rows.
     case rows of
       [] \<Rightarrow> return ()
     | profile # _ \<Rightarrow>
         and_then (query fails queryRunner UPDATE_profile_completion
                     [SInt (finalPercentage profile counts), SInt (int userId)] update_completion)
           (\<lambda>_. return ())))"

text \<open>The \<^verbatim>\<open>catch\<close> re-throws only when no client was passed.\<close>

definition updateProfileCompletion :: "env \<Rightarrow> nat \<Rightarrow> conn option \<Rightarrow> unit io" where
  "updateProfileCompletion fails userId dbClient w =
     (let queryRunner = (case dbClient of Some c \<Rightarrow> c | None \<Rightarrow> Pool)
      in case updateProfileCompletion_try fails userId queryRunner w of
           (Inl e, w1) \<Rightarrow> if dbClient = None then (Inl e, w1) else (Inr (), w1)
         | (Inr u, w1) \<Rightarrow> (Inr u, w1))"

subsection \<open>uploadResume\<close>

definition uploadResume_try :: "env \<Rightarrow> nat \<Rightarrow> multer_file \<Rightarrow> response io" where
  "uploadResume_try fails userId file =
     and_then (client_begin fails) (\<lambda>_.
     let storageUrl = ''/uploads/'' @ filename file in
     and_then (client_query fails INSERT_user_documents
                 [SInt (int userId), SText ''resume'', SText (originalname file),
                  SText storageUrl, SInt (Math_round (of_nat (file_size file) / 1024)),
                  SBool True] insert_document) (\<lambda>newResume.
     and_then (client_query fails UPDATE_unset_default
                 [SInt (int userId), SInt (int (doc_id newResume))] unset_default) (\<lambda>_.
     and_then (client_commit fails) (\<lambda>_.
     and_then (updateProfileCompletion fails userId None) (\<lambda>_.
     return (Status 201 (Resume_row newResume)))))))"

text \<open>The \<^verbatim>\<open>catch\<close> block: \<^verbatim>\<open>ROLLBACK\<close> is awaited first, and when it throws the
  rest of the block does not run.\<close>

definition uploadResume_catch :: "env \<Rightarrow> multer_file \<Rightarrow> error \<Rightarrow> world \<Rightarrow> error \<times> world" where
  "uploadResume_catch fails file e w =
     (case client_rollback fails w of
        (Inl e', w1) \<Rightarrow> (e', w1)
      | (Inr _, w1) \<Rightarrow> (e, remove_file fails (uploads_path (filename file)) w1))"

definition uploadResume ::
  "env \<Rightarrow> nat option \<Rightarrow> multer_file option \<Rightarrow> world \<Rightarrow> response \<times> world" where
  "uploadResume fails userId file w =
     (case userId of
        None \<Rightarrow> (Status 401 No_data, w)
      | Some uid \<Rightarrow>
          if uid = 0 then (Status 401 No_data, w)
          else (case file of
                  None \<Rightarrow> (Status 400 No_data, w)
                | Some f \<Rightarrow>
                    (case pool_connect fails w of
                       (Inl e, w1) \<Rightarrow> (Next e, w1)
                     | (Inr _, w1) \<Rightarrow>
                         (case uploadResume_try fails uid f w1 of
                            (Inr resp, w2) \<Rightarrow> (resp, client_release w2)
                          | (Inl e, w2) \<Rightarrow>
                              (case uploadResume_catch fails f e w2 of
                                 (e', w3) \<Rightarrow> (Next e', client_release w3))))))"

subsection \<open>deleteResume\<close>

text \<open>\<open>resumeId\<close> is \<^verbatim>\<open>parseInt(req.params.id, 10)\<close>, \<open>None\<close> for \<^verbatim>\<open>NaN\<close>.\<close>

definition deleteResume ::
  "env \<Rightarrow> nat option \<Rightarrow> int option \<Rightarrow> world \<Rightarrow> response \<times> world" where
  "deleteResume fails userId resumeId w =
     (case userId of
        None \<Rightarrow> (Status 401 No_data, w)
      | Some uid \<Rightarrow>
          if uid = 0 then (Status 401 No_data, w)
          else (case resumeId of
                  None \<Rightarrow> (Status 400 No_data, w)
                | Some rid \<Rightarrow>
          (case pool_query fails SELECT_resume [SInt rid, SInt (int uid)] select_resume w of
             (Inl e, w1) \<Rightarrow> (Next e, w1)
           | (Inr rows, w1) \<Rightarrow>
          (case rows of
             [] \<Rightarrow> (Status 404 No_data, w1)
           | fileRecord # _ \<Rightarrow>
          (case pool_query fails DELETE_user_documents [SInt rid, SInt (int uid)]
                  delete_document w1 of
             (Inl e, w2) \<Rightarrow> (Next e, w2)
           | (Inr rowCount, w2) \<Rightarrow>
               if rowCount = 0 then (Status 404 No_data, w2)
               else (case updateProfileCompletion fails uid None
                            (remove_file fails (storage_url fileRecord) w2) of
                       (Inl e, w4) \<Rightarrow> (Next e, w4)
                     | (Inr _, w4) \<Rightarrow> (Status 200 No_data, w4)))))))"

subsection \<open>updateProfile\<close>

record profile_body =
  body_first_name :: "string option"
  body_last_name :: "string option"
  body_job_title :: "string option"
  body_location :: "string option"
  body_profile_summary :: "string option"
  body_professional_summary :: "string option"
  body_years_of_experience :: "int option"
  body_experience_level :: "string option"
  body_primary_industry :: "string option"
  body_website_url :: "string option"
  body_linkedin_url :: "string option"
  body_github_url :: "string option"

text \<open>A request value as the driver binds it: \<^verbatim>\<open>undefined\<close> and \<^verbatim>\<open>null\<close> become
  \<^verbatim>\<open>NULL\<close>.\<close>

definition sql_text :: "string option \<Rightarrow> sqlval" where
  "sql_text v = (case v of None \<Rightarrow> SNull | Some s \<Rightarrow> SText s)"

definition sql_int :: "int option \<Rightarrow> sqlval" where
  "sql_int v = (case v of None \<Rightarrow> SNull | Some n \<Rightarrow> SInt n)"

text \<open>
  Lines 153 to 195: the removal of the old image, the score, \<^verbatim>\<open>COMMIT\<close>, and the
  select for the answer, all inside the \<^verbatim>\<open>try\<close> block.
\<close>

definition updateProfile_tail ::
  "env \<Rightarrow> nat \<Rightarrow> string option \<Rightarrow> string option \<Rightarrow> response io" where
  "updateProfile_tail fails userId newProfileImageUrl oldProfileImageUrl w =
     (let w1 = (if truthy (js_text newProfileImageUrl) \<and> truthy (js_text oldProfileImageUrl)
                   \<and> newProfileImageUrl \<noteq> oldProfileImageUrl
                then (case oldProfileImageUrl of
                        None \<Rightarrow> w
                      | Some old \<Rightarrow> remove_file fails (uploads_path (basename old)) w)
                else w)
      in and_then (updateProfileCompletion fails userId (Some Client)) (\<lambda>_.
         and_then (client_commit fails) (\<lambda>_.
         and_then (pool_query fails SELECT_updated_profile [SInt (int userId)]
                     select_updated_profile) (\<lambda>rows.
         return (Status 200 (Profile_row (case rows of [] \<Rightarrow> None | r # _ \<Rightarrow> Some r))))))
           w1)"

text \<open>
  Lines 84 to 103: \<^verbatim>\<open>BEGIN\<close> and the image handling. The result is the pair of
  \<^verbatim>\<open>newProfileImageUrl\<close> and \<^verbatim>\<open>oldProfileImageUrl\<close>; \<^verbatim>\<open>newProfileImageUrl\<close> is
  assigned after the select of the old image has returned.
\<close>

definition updateProfile_image ::
  "env \<Rightarrow> nat \<Rightarrow> multer_file option \<Rightarrow> (string option \<times> string option) io" where
  "updateProfile_image fails userId file =
     and_then (client_begin fails) (\<lambda>_.
     case file of
       None \<Rightarrow> return (None, None)
     | Some f \<Rightarrow>
         and_then (client_query fails SELECT_profile_image [SInt (int userId)]
                     select_profile_image) (\<lambda>rows.
         return (Some (''/uploads/'' @ filename f),
                 (case rows of [] \<Rightarrow> None | r # _ \<Rightarrow> r))))"

text \<open>\<^verbatim>\<open>newProfileImageUrl ?? oldProfileImageUrl\<close>\<close>

definition finalImageUrl :: "string option \<Rightarrow> string option \<Rightarrow> string option" where
  "finalImageUrl newProfileImageUrl oldProfileImageUrl =
     (case newProfileImageUrl of Some n \<Rightarrow> Some n | None \<Rightarrow> oldProfileImageUrl)"

text \<open>
  Lines 105 to 149 and the rest of the \<^verbatim>\<open>try\<close> block. The value array of the profile
  update has eleven entries, \<^verbatim>\<open>job_title\<close> to \<^verbatim>\<open>finalImageUrl\<close>; the statement text
  goes up to \<^verbatim>\<open>$12\<close>, and \<^verbatim>\<open>userId\<close> is not in the array.
\<close>

definition updateProfile_writes ::
  "env \<Rightarrow> nat \<Rightarrow> profile_body \<Rightarrow> string option \<Rightarrow> string option \<Rightarrow> response io" where
  "updateProfile_writes fails userId body newProfileImageUrl oldProfileImageUrl =
     and_then (if truthy (js_text (body_first_name body)) \<or> truthy (js_text (body_last_name body))
               then client_query fails UPDATE_users
                      [sql_text (body_first_name body), sql_text (body_last_name body),
                       SInt (int userId)] update_users
               else return ()) (\<lambda>_.
     and_then (client_query fails UPDATE_user_profiles
                 [sql_text (body_job_title body),
                  sql_text (body_location body),
                  sql_text (body_profile_summary body),
                  sql_text (body_professional_summary body),
                  sql_int (body_years_of_experience body),
                  sql_text (body_experience_level body),
                  sql_text (body_primary_industry body),
                  sql_text (body_website_url body),
                  sql_text (body_linkedin_url body),
                  sql_text (body_github_url body),
                  sql_text (finalImageUrl newProfileImageUrl oldProfileImageUrl)]
                 update_user_profiles) (\<lambda>_.
     updateProfile_tail fails userId newProfileImageUrl oldProfileImageUrl))"

text \<open>The \<^verbatim>\<open>catch\<close> block, with the value \<^verbatim>\<open>newProfileImageUrl\<close> has when the error
  is thrown.\<close>

definition updateProfile_catch ::
  "env \<Rightarrow> string option \<Rightarrow> error \<Rightarrow> world \<Rightarrow> error \<times> world" where
  "updateProfile_catch fails newProfileImageUrl e w =
     (case client_rollback fails w of
        (Inl e', w1) \<Rightarrow> (e', w1)
      | (Inr _, w1) \<Rightarrow>
          (e, case newProfileImageUrl of
                None \<Rightarrow> w1
              | Some n \<Rightarrow> if n = [] then w1
                          else remove_file fails (uploads_path (basename n)) w1))"

definition updateProfile ::
  "env \<Rightarrow> nat option \<Rightarrow> profile_body \<Rightarrow> multer_file option \<Rightarrow> world \<Rightarrow> response \<times> world" where
  "updateProfile fails userId body file w =
     (case userId of
        None \<Rightarrow> (Status 401 No_data, w)
      | Some uid \<Rightarrow>
          if uid = 0 then (Status 401 No_data, w)
          else
          (case pool_connect fails w of
             (Inl e, w1) \<Rightarrow> (Next e, w1)
           | (Inr _, w1) \<Rightarrow>
          (case updateProfile_image fails uid file w1 of
             (Inl e, w2) \<Rightarrow>
               (case updateProfile_catch fails None e w2 of
                  (e', w3) \<Rightarrow> (Next e', client_release w3))
           | (Inr (newProfileImageUrl, oldProfileImageUrl), w2) \<Rightarrow>
          (case updateProfile_writes fails uid body newProfileImageUrl oldProfileImageUrl w2 of
             (Inr resp, w3) \<Rightarrow> (resp, client_release w3)
           | (Inl e, w3) \<Rightarrow>
               (case updateProfile_catch fails newProfileImageUrl e w3 of
                  (e', w4) \<Rightarrow> (Next e', client_release w4))))))"

section \<open>Example inputs\<close>

definition nothing_filled :: "'a profile_scheme \<Rightarrow> bool" where
  "nothing_filled p =
     (\<not> non_empty_text (job_title p) \<and> \<not> non_empty_text (location p)
      \<and> \<not> non_empty_num (years_of_experience p) \<and> \<not> non_empty_text (experience_level p)
      \<and> \<not> non_empty_text (primary_industry p) \<and> \<not> non_empty_text (profile_summary p)
      \<and> \<not> non_empty_text (professional_summary p) \<and> \<not> non_empty_text (website_url p)
      \<and> \<not> non_empty_text (linkedin_url p) \<and> \<not> non_empty_text (github_url p)
      \<and> \<not> non_empty_text (profile_image_url p))"

definition every_field_populated :: "'a profile_scheme \<Rightarrow> bool" where
  "every_field_populated p =
     (non_empty_text (job_title p) \<and> non_empty_text (location p)
      \<and> non_empty_num (years_of_experience p) \<and> non_empty_text (experience_level p)
      \<and> non_empty_text (primary_industry p) \<and> non_empty_text (profile_summary p)
      \<and> non_empty_text (professional_summary p) \<and> non_empty_text (website_url p)
      \<and> non_empty_text (linkedin_url p) \<and> non_empty_text (github_url p)
      \<and> non_empty_text (profile_image_url p))"

definition full_profile :: "int \<Rightarrow> profile" where
  "full_profile years =
     \<lparr> user_id = 1, job_title = Some ''Engineer'', location = Some ''Nairobi'',
       profile_image_url = Some ''/uploads/me.png'', profile_summary = Some ''short'',
       professional_summary = Some ''long'', years_of_experience = Some years,
       experience_level = Some ''Senior'', primary_industry = Some ''Software'',
       profile_completion = 0, website_url = Some ''https://a.example'',
       linkedin_url = Some ''https://b.example'', github_url = Some ''https://c.example'' \<rparr>"

definition full_counts :: counts where
  "full_counts =
     \<lparr> experience_count = 5, education_count = 3, skill_count = 13, resume_count = 1 \<rparr>"


section \<open>Notions used to state the properties\<close>

text \<open>The statements issued on one connection, in the order of the log, and the files
  removed.\<close>

fun stmt_on :: "conn \<Rightarrow> event \<Rightarrow> stmt list" where
  "stmt_on c (Query c' s vals ok) = (if c = c' then [s] else [])"
| "stmt_on c _ = []"

definition stmts_on :: "conn \<Rightarrow> event list \<Rightarrow> stmt list" where
  "stmts_on c tr = concat (map (stmt_on c) tr)"

fun removed_by :: "event \<Rightarrow> string list" where
  "removed_by (Unlinked path ok) = (if ok then [path] else [])"
| "removed_by _ = []"

definition removals :: "event list \<Rightarrow> string list" where
  "removals tr = concat (map removed_by tr)"

fun is_pool_query :: "event \<Rightarrow> bool" where
  "is_pool_query (Query c s vals ok) = (c = Pool)"
| "is_pool_query _ = False"

text \<open>The rows the scorer reads for a user, and the database after a recomputation of
  the user's score that ran to its end.\<close>

definition count_rows :: "database \<Rightarrow> nat \<Rightarrow> counts" where
  "count_rows d uid = fst (select_counts [SInt (int uid)] d)"

definition profiles_of :: "database \<Rightarrow> nat \<Rightarrow> profile list" where
  "profiles_of d uid = filter (\<lambda>p. user_id p = uid) (user_profiles d)"

definition score_values :: "nat \<Rightarrow> database \<Rightarrow> sqlval list" where
  "score_values uid d =
     (case profiles_of d uid of
        [] \<Rightarrow> []
      | p # _ \<Rightarrow> [SInt (finalPercentage p (count_rows d uid)), SInt (int uid)])"

definition rescore :: "nat \<Rightarrow> database \<Rightarrow> database" where
  "rescore uid d =
     (case profiles_of d uid of
        [] \<Rightarrow> d
      | p # _ \<Rightarrow> snd (update_completion (score_values uid d) d))"


text \<open>The value arrays of \<^verbatim>\<open>uploadResume\<close>, the row its insert returns and the
  database after its two statements.\<close>

definition resume_values :: "nat \<Rightarrow> multer_file \<Rightarrow> sqlval list" where
  "resume_values uid f =
     [SInt (int uid), SText ''resume'', SText (originalname f),
      SText (''/uploads/'' @ filename f), SInt (Math_round (of_nat (file_size f) / 1024)),
      SBool True]"

definition new_row :: "nat \<Rightarrow> multer_file \<Rightarrow> database \<Rightarrow> document" where
  "new_row uid f d = fst (insert_document (resume_values uid f) d)"

definition unset_values :: "nat \<Rightarrow> multer_file \<Rightarrow> database \<Rightarrow> sqlval list" where
  "unset_values uid f d = [SInt (int uid), SInt (int (doc_id (new_row uid f d)))]"

definition registered :: "nat \<Rightarrow> multer_file \<Rightarrow> database \<Rightarrow> database" where
  "registered uid f d =
     snd (unset_default (unset_values uid f d) (snd (insert_document (resume_values uid f) d)))"


text \<open>What the clearing statement of \<^verbatim>\<open>uploadResume\<close> does to a row that is not the new
  one, and the database after the delete statement of \<^verbatim>\<open>deleteResume\<close>.\<close>

definition demote :: "nat \<Rightarrow> document \<Rightarrow> document" where
  "demote uid x =
     (if owner_id x = uid \<and> document_type x = ''resume'' then x\<lparr>is_default_resume := False\<rparr>
      else x)"

definition deleted :: "int \<Rightarrow> nat \<Rightarrow> database \<Rightarrow> database" where
  "deleted rid uid d = snd (delete_document [SInt rid, SInt (int uid)] d)"

text \<open>The default resumes of a user, and the invariant of the document table.\<close>

definition default_resumes :: "database \<Rightarrow> nat \<Rightarrow> document list" where
  "default_resumes d uid =
     filter (\<lambda>x. owner_id x = uid \<and> document_type x = ''resume'' \<and> is_default_resume x)
       (user_documents d)"

definition at_most_one_default :: "database \<Rightarrow> bool" where
  "at_most_one_default d = (\<forall>uid. length (default_resumes d uid) \<le> 1)"

text \<open>Requests for the two resume routes, each with the faults of its own run, served
  one after the other.\<close>

datatype request =
    Upload_resume env "nat option" "multer_file option"
  | Delete_resume env "nat option" "int option"

fun serve :: "request \<Rightarrow> world \<Rightarrow> world" where
  "serve (Upload_resume fails userId file) w = snd (uploadResume fails userId file w)"
| "serve (Delete_resume fails userId resumeId) w = snd (deleteResume fails userId resumeId w)"

fun serve_all :: "request list \<Rightarrow> world \<Rightarrow> world" where
  "serve_all [] w = w"
| "serve_all (r # rs) w = serve_all rs (serve r w)"


text \<open>A user with an empty profile that has an image, and the files multer has stored
  for the requests of the examples.\<close>

definition no_faults :: env where
  "no_faults = (\<lambda>c. False)"

definition example_db :: database where
  "example_db =
     \<lparr> users = [\<lparr> u_id = 1, first_name = ''Ada'', last_name = ''Obi'' \<rparr>],
       user_profiles = [empty_profile\<lparr>profile_image_url := Some ''/uploads/old.png''\<rparr>],
       user_documents = [], user_experiences = [], user_educations = [], user_skills = [] \<rparr>"

definition example_world :: world where
  "example_world =
     \<lparr> committed = example_db, txn = None,
       files = {''/uploads/old.png'', ''/uploads/cv1.pdf'', ''/uploads/cv2.pdf'',
                ''/uploads/new.png''},
       trace = [] \<rparr>"

definition resume1 :: multer_file where
  "resume1 = \<lparr> originalname = ''first.pdf'', filename = ''cv1.pdf'', file_size = 2048 \<rparr>"

definition resume2 :: multer_file where
  "resume2 = \<lparr> originalname = ''second.pdf'', filename = ''cv2.pdf'', file_size = 307200 \<rparr>"

definition new_image :: multer_file where
  "new_image = \<lparr> originalname = ''me.png'', filename = ''new.png'', file_size = 5000 \<rparr>"

definition row1 :: document where
  "row1 = \<lparr> doc_id = 1, owner_id = 1, document_type = ''resume'', file_name = ''first.pdf'',
            storage_url = ''/uploads/cv1.pdf'', file_size_kb = 2, is_default_resume = True \<rparr>"

definition row2 :: document where
  "row2 = \<lparr> doc_id = 2, owner_id = 1, document_type = ''resume'', file_name = ''second.pdf'',
            storage_url = ''/uploads/cv2.pdf'', file_size_kb = 300, is_default_resume = True \<rparr>"


text \<open>The example user after two uploads: the first resume demoted, the second the
  default.\<close>

definition two_resumes_world :: world where
  "two_resumes_world =
     example_world
       \<lparr>committed :=
          example_db\<lparr>user_documents := [row1\<lparr>is_default_resume := False\<rparr>, row2]\<rparr>\<rparr>"




text \<open>The value arrays of \<^verbatim>\<open>updateProfile\<close>.\<close>

definition name_values :: "profile_body \<Rightarrow> nat \<Rightarrow> sqlval list" where
  "name_values body uid =
     [sql_text (body_first_name body), sql_text (body_last_name body), SInt (int uid)]"

definition profile_values :: "profile_body \<Rightarrow> string option \<Rightarrow> string option \<Rightarrow> sqlval list" where
  "profile_values body newProfileImageUrl oldProfileImageUrl =
     [sql_text (body_job_title body),
      sql_text (body_location body),
      sql_text (body_profile_summary body),
      sql_text (body_professional_summary body),
      sql_int (body_years_of_experience body),
      sql_text (body_experience_level body),
      sql_text (body_primary_industry body),
      sql_text (body_website_url body),
      sql_text (body_linkedin_url body),
      sql_text (body_github_url body),
      sql_text (finalImageUrl newProfileImageUrl oldProfileImageUrl)]"

definition names_given :: "profile_body \<Rightarrow> bool" where
  "names_given body =
     (truthy (js_text (body_first_name body)) \<or> truthy (js_text (body_last_name body)))"

text \<open>A request body that sets the job title and nothing else.\<close>

definition job_title_body :: profile_body where
  "job_title_body =
     \<lparr> body_first_name = None, body_last_name = None, body_job_title = Some ''Developer'',
       body_location = None, body_profile_summary = None, body_professional_summary = None,
       body_years_of_experience = None, body_experience_level = None,
       body_primary_industry = None, body_website_url = None, body_linkedin_url = None,
       body_github_url = None \<rparr>"

text \<open>The faults of a run in which only the select of the old image fails.\<close>

definition image_query_fails :: env where
  "image_query_fails = (\<lambda>c. c = Sql Client SELECT_profile_image)"

text \<open>
  The world inside the transaction of \<^verbatim>\<open>updateProfile\<close> once a profile update with all
  twelve values has run: the eleven values of the handler for the job title body and the
  new image, and the user id as the twelfth.
\<close>

definition image_replaced_world :: world where
  "image_replaced_world =
     snd (client_query no_faults UPDATE_user_profiles
            (profile_values job_title_body (Some ''/uploads/new.png'') (Some ''/uploads/old.png'')
               @ [SInt 1])
            update_user_profiles
            (snd (client_begin no_faults (snd (pool_connect no_faults example_world)))))"


text \<open>The faults of a run in which only the count query of a recomputation on the client
  fails, and the profile row of the example user inside the transaction of
  \<open>image_replaced_world\<close>.\<close>

definition client_count_query_fails :: env where
  "client_count_query_fails = (\<lambda>c. c = Sql Client SELECT_counts)"

definition replaced_profile :: profile where
  "replaced_profile =
     empty_profile\<lparr>job_title := Some ''Developer'', profile_image_url := Some ''/uploads/new.png''\<rparr>"

text \<open>The status a handler has sent, if it has sent one.\<close>

definition sent_status :: "error + response \<Rightarrow> nat option" where
  "sent_status r = (case r of Inr (Status c pl) \<Rightarrow> Some c | _ \<Rightarrow> None)"


section \<open>Properties of the scorer\<close>

lemma truthy_js_text: "truthy (js_text v) = non_empty_text v"
  by (cases v) (simp_all add: js_text_def non_empty_text_def)

lemma truthy_js_num:
  "truthy (js_num v) = (non_empty_num v \<and> v \<noteq> Some 0)"
  by (cases v) (simp_all add: js_num_def non_empty_num_def)

lemma basicInfo_sum:
  "forEach_key p weights_basicInfo 0 =
     pts (non_empty_text (job_title p)) 5 + pts (non_empty_text (location p)) 5
   + pts (non_empty_num (years_of_experience p) \<and> years_of_experience p \<noteq> Some 0) 5
   + pts (non_empty_text (experience_level p)) 5 + pts (non_empty_text (primary_industry p)) 5"
  by (simp add: weights_basicInfo_def truthy_js_text truthy_js_num pts_def)

lemma summaries_sum:
  "forEach_key p weights_summaries a =
     a + pts (non_empty_text (profile_summary p)) 10
       + pts (non_empty_text (professional_summary p)) 10"
  by (simp add: weights_summaries_def truthy_js_text pts_def)

lemma links_sum:
  "linkScore p =
     pts (non_empty_text (website_url p)) 3 + pts (non_empty_text (linkedin_url p)) 4
   + pts (non_empty_text (github_url p)) 3"
  by (simp add: linkScore_def weights_links_def truthy_js_text pts_def)

lemma completionPercentage_truthy_sum: "completionPercentage p c = truthy_sum p c"
  unfolding completionPercentage_def Let_def basicInfo_sum summaries_sum links_sum
    truthy_sum_def text_points_def count_points_def truthy_js_text
    weights_profileImage_def weights_experience_def weights_education_def
    weights_skills_def weights_resume_def
  by (simp add: pts_def min.commute mult.commute)

lemma Math_round_of_int: "Math_round (of_int n) = n"
  by (simp add: Math_round_def floor_eq_iff)

lemma Math_round_numeral: "Math_round (numeral k) = numeral k"
  using Math_round_of_int [of "numeral k"] by simp

lemma Math_round_zero: "Math_round 0 = 0"
  using Math_round_of_int [of 0] by simp

lemma count_points_full:
  assumes "5 \<le> experience_count c" "3 \<le> education_count c" "13 \<le> skill_count c"
    "1 \<le> resume_count c"
  shows "count_points c = 50"
proof -
  have e: "(5::rat) \<le> of_nat (experience_count c)"
    using assms(1) by (metis of_nat_le_iff of_nat_numeral)
  have d: "(3::rat) \<le> of_nat (education_count c)"
    using assms(2) by (metis of_nat_le_iff of_nat_numeral)
  have s: "(13::rat) \<le> of_nat (skill_count c)"
    using assms(3) by (metis of_nat_le_iff of_nat_numeral)
  have "min 15 (5 + 2 * (of_nat (experience_count c)::rat)) = 15" using e by simp
  moreover have "min 10 (5 + (5 / 2) * (of_nat (education_count c)::rat)) = 10" using d by simp
  moreover have "min 15 (3 + (of_nat (skill_count c)::rat)) = 15" using s by simp
  ultimately show ?thesis using assms by (simp add: count_points_def)
qed

lemma text_points_full: "every_field_populated p \<Longrightarrow> text_points p = 55"
  by (simp add: every_field_populated_def text_points_def pts_def)

lemma text_points_none: "nothing_filled p \<Longrightarrow> text_points p = 0"
  by (simp add: nothing_filled_def text_points_def pts_def)

lemma full_profile_populated: "every_field_populated (full_profile y)"
  by (simp add: every_field_populated_def full_profile_def non_empty_text_def
      non_empty_num_def)

lemma full_counts_thresholds:
  "5 \<le> experience_count full_counts \<and> 3 \<le> education_count full_counts
   \<and> 13 \<le> skill_count full_counts \<and> 1 \<le> resume_count full_counts"
  by (simp add: full_counts_def)

text \<open>
  Claim C1, as the code has it. For every profile row and all four counts, the score
  that \<^verbatim>\<open>updateProfileCompletion\<close> computes is the sum of the category points, rounded
  and clamped to 0..100: 5 for each non-empty text field among job title, location,
  experience level and industry; 5 for the years of experience when the number is
  present and not zero; 10 for each non-empty summary; the link weights 3, 4, 3 of the
  present links, capped at 10; 5 for an image; \<open>min 15 (5 + 2n)\<close>, \<open>min 10 (5 + 2.5n)\<close>,
  \<open>min 15 (3 + n)\<close> for positive counts of experience, education and skills; 10 for at
  least one resume.
\<close>

theorem score_formula:
  "finalPercentage p c = clamp (Math_round (truthy_sum p c)) 0 100"
  by (simp add: finalPercentage_def clamp_def completionPercentage_truthy_sum)

theorem score_formula_witness:
  "finalPercentage (full_profile 3) full_counts
     = clamp (Math_round (truthy_sum (full_profile 3) full_counts)) 0 100"
  by (rule score_formula)

text \<open>
  Claim C1 as stated gives 5 points to every non-empty basic field. A profile whose only
  entry is 0 years of experience has a non-empty field and scores 0, not 5: the code
  tests the JavaScript truth value of the number.
\<close>

theorem score_formula_counterexample:
  "finalPercentage (empty_profile\<lparr>years_of_experience := Some 0\<rparr>) no_counts
     \<noteq> clamp (Math_round (spec_sum (empty_profile\<lparr>years_of_experience := Some 0\<rparr>)
                            no_counts)) 0 100"
  by (simp add: finalPercentage_def completionPercentage_truthy_sum truthy_sum_def
      spec_sum_def text_points_def count_points_def non_empty_text_def non_empty_num_def
      pts_def empty_profile_def no_counts_def clamp_def Math_round_numeral Math_round_zero)

text \<open>
  Claim C7, as the code has it. A profile with nothing filled in and no related rows
  scores 0. A profile with every field populated, an image, all three links, at least 5
  experience entries, 3 education entries, 13 skills and a resume scores 100; the sum
  before clamping is 110, or 105 when the years of experience are 0.
\<close>

theorem boundary_scores:
  "(nothing_filled p \<and> c = no_counts \<longrightarrow> finalPercentage p c = 0)
   \<and> (every_field_populated q \<and> 5 \<le> experience_count d \<and> 3 \<le> education_count d
        \<and> 13 \<le> skill_count d \<and> 1 \<le> resume_count d
      \<longrightarrow> finalPercentage q d = 100
          \<and> completionPercentage q d = (if years_of_experience q = Some 0 then 105 else 110))"
proof (intro conjI impI)
  assume a: "nothing_filled p \<and> c = no_counts"
  then have "truthy_sum p c = 0"
    by (simp add: truthy_sum_def text_points_none count_points_def no_counts_def pts_def
        nothing_filled_def)
  then show "finalPercentage p c = 0"
    by (simp add: finalPercentage_def completionPercentage_truthy_sum Math_round_def)
next
  assume a: "every_field_populated q \<and> 5 \<le> experience_count d \<and> 3 \<le> education_count d
        \<and> 13 \<le> skill_count d \<and> 1 \<le> resume_count d"
  then have s: "truthy_sum q d = (if years_of_experience q = Some 0 then 105 else 110)"
    by (simp add: truthy_sum_def text_points_full count_points_full pts_def
        every_field_populated_def)
  show "completionPercentage q d = (if years_of_experience q = Some 0 then 105 else 110)"
    using s by (simp add: completionPercentage_truthy_sum)
  show "finalPercentage q d = 100"
    using s by (simp add: finalPercentage_def completionPercentage_truthy_sum Math_round_def)
qed

theorem boundary_scores_witness:
  "nothing_filled empty_profile \<and> finalPercentage empty_profile no_counts = 0
   \<and> every_field_populated (full_profile 3) \<and> finalPercentage (full_profile 3) full_counts = 100
   \<and> completionPercentage (full_profile 3) full_counts = 110"
proof -
  have a: "nothing_filled empty_profile"
    by (simp add: nothing_filled_def empty_profile_def non_empty_text_def non_empty_num_def)
  have y: "years_of_experience (full_profile 3) \<noteq> Some 0" by (simp add: full_profile_def)
  show ?thesis
    using boundary_scores [of empty_profile no_counts "full_profile 3" full_counts] a y
      full_profile_populated [of 3] full_counts_thresholds
    by simp
qed

text \<open>
  Claim C7 as stated has the sum before clamping at 110 for every fully populated
  profile. With 0 years of experience entered the sum is 105.
\<close>

theorem boundary_scores_counterexample:
  "every_field_populated (full_profile 0) \<and> 5 \<le> experience_count full_counts
   \<and> 3 \<le> education_count full_counts \<and> 13 \<le> skill_count full_counts
   \<and> 1 \<le> resume_count full_counts \<and> completionPercentage (full_profile 0) full_counts \<noteq> 110"
proof -
  have "truthy_sum (full_profile 0) full_counts = 105"
    using full_profile_populated [of 0] full_counts_thresholds
    by (simp add: truthy_sum_def text_points_full count_points_full pts_def full_profile_def)
  then show ?thesis
    using full_profile_populated [of 0] full_counts_thresholds
    by (simp add: completionPercentage_truthy_sum)
qed

section \<open>Properties of the driver and of the handlers\<close>

subsection \<open>Bound values and rounding\<close>

lemma is_id_SInt [simp]: "is_id (SInt (int n)) m \<longleftrightarrow> m = n"
  by (auto simp: is_id_def)

lemma is_other_id_SInt [simp]: "is_other_id (SInt (int n)) m \<longleftrightarrow> m \<noteq> n"
  by (auto simp: is_other_id_def)

lemma Math_round_kb: "Math_round (of_nat n / 1024) = (int n + 512) div 1024"
proof -
  have "(of_nat n :: rat) / 1024 + 1 / 2 = of_int (int n + 512) / of_int 1024"
    by (simp add: field_simps)
  then show ?thesis
    unfolding Math_round_def by (simp only: floor_divide_of_int_eq)
qed


lemmas run_defs = uploadResume_def uploadResume_try_def uploadResume_catch_def
  deleteResume_def updateProfileCompletion_def updateProfileCompletion_try_def
  updateProfile_def updateProfile_image_def updateProfile_writes_def updateProfile_tail_def
  updateProfile_catch_def finalImageUrl_def
  pool_query_def client_query_def query_def client_begin_def client_commit_def
  client_rollback_def pool_connect_def client_release_def existsSync_def unlinkSync_def
  and_then_def return_def note_event_def abort_txn_def remove_file_def uploads_path_def

lemmas sql_defs = select_profile_image_def update_users_def update_user_profiles_def
  select_updated_profile_def insert_document_def fresh_id_def unset_default_def
  select_resume_def delete_document_def select_counts_def select_profile_def
  update_completion_def is_id_def is_other_id_def coalesce_text_def coalesce_name_def
  coalesce_int_def text_or_null_def text_of_def int_of_def bool_of_def sql_text_def sql_int_def

lemmas example_defs = no_faults_def example_db_def example_world_def resume1_def resume2_def
  new_image_def row1_def row2_def empty_profile_def


lemma Math_round_half: "Math_round (of_int n / 2) = (n + 1) div 2"
proof -
  have "(of_int n :: rat) / 2 + 1 / 2 = of_int (n + 1) / of_int 2"
    by (simp add: field_simps)
  then show ?thesis
    unfolding Math_round_def by (simp only: floor_divide_of_int_eq)
qed

lemma Math_round_half_numeral: "Math_round (numeral k / 2) = (numeral k + 1) div 2"
  using Math_round_half [of "numeral k"] by simp

lemmas scorer_eval = finalPercentage_def completionPercentage_truthy_sum truthy_sum_def
  text_points_def count_points_def pts_def non_empty_text_def non_empty_num_def
  Math_round_numeral Math_round_zero Math_round_half_numeral

subsection \<open>The score recomputation on the pool\<close>



lemma profiles_of_select: "fst (select_profile [SInt (int uid)] d) = profiles_of d uid"
  by (simp add: select_profile_def profiles_of_def)

lemma try_pool_eq:
  "updateProfileCompletion_try fails uid Pool w =
     (let d = committed w;
          S1 = Query Pool SELECT_counts [SInt (int uid)];
          S2 = Query Pool SELECT_profile [SInt (int uid)];
          S3 = Query Pool UPDATE_profile_completion (score_values uid d) in
      if fails (Sql Pool SELECT_counts)
      then (Inl (Failed (Sql Pool SELECT_counts)), w\<lparr>trace := trace w @ [S1 False]\<rparr>)
      else if fails (Sql Pool SELECT_profile)
      then (Inl (Failed (Sql Pool SELECT_profile)), w\<lparr>trace := trace w @ [S1 True, S2 False]\<rparr>)
      else if profiles_of d uid = []
      then (Inr (), w\<lparr>trace := trace w @ [S1 True, S2 True]\<rparr>)
      else if fails (Sql Pool UPDATE_profile_completion)
      then (Inl (Failed (Sql Pool UPDATE_profile_completion)),
            w\<lparr>trace := trace w @ [S1 True, S2 True, S3 False]\<rparr>)
      else (Inr (), w\<lparr>committed := rescore uid d, trace := trace w @ [S1 True, S2 True, S3 True]\<rparr>))"
  by (simp add: updateProfileCompletion_try_def query_def pool_query_def and_then_def return_def
      note_event_def rescore_def profiles_of_def count_rows_def select_counts_def select_profile_def
      score_values_def Let_def
      split: prod.splits sum.splits list.splits)

lemma rescore_no_profile: "profiles_of d uid = [] \<Longrightarrow> rescore uid d = d"
  by (simp add: rescore_def)

lemma upc_pool_frame:
  assumes "updateProfileCompletion fails uid None w = (r, w')"
  shows "files w' = files w \<and> txn w' = txn w
       \<and> (\<exists>evs. trace w' = trace w @ evs \<and> list_all is_pool_query evs)
       \<and> (case r of Inl e \<Rightarrow> committed w' = committed w
                   | Inr u \<Rightarrow> committed w' = rescore uid (committed w))"
  using assms
  by (auto simp: updateProfileCompletion_def try_pool_eq Let_def rescore_no_profile
      split: if_splits)



lemma rescore_tables:
  "user_documents (rescore uid d) = user_documents d"
  "user_experiences (rescore uid d) = user_experiences d"
  "user_educations (rescore uid d) = user_educations d"
  "user_skills (rescore uid d) = user_skills d"
  "users (rescore uid d) = users d"
  by (simp_all add: rescore_def update_completion_def split: list.splits)





subsection \<open>The steps of uploadResume\<close>

lemma uploadResume_try_eq:
  assumes "txn w = None"
  shows "uploadResume_try fails uid f w =
    (let d = committed w;
         B = Query Client BEGIN []; I = Query Client INSERT_user_documents (resume_values uid f);
         U = Query Client UPDATE_unset_default (unset_values uid f d); C = Query Client COMMIT [] in
     if fails (Sql Client BEGIN)
     then (Inl (Failed (Sql Client BEGIN)), w\<lparr>trace := trace w @ [B False]\<rparr>)
     else if fails (Sql Client INSERT_user_documents)
     then (Inl (Failed (Sql Client INSERT_user_documents)),
           w\<lparr>txn := Some (d, True), trace := trace w @ [B True, I False]\<rparr>)
     else if fails (Sql Client UPDATE_unset_default)
     then (Inl (Failed (Sql Client UPDATE_unset_default)),
           w\<lparr>txn := Some (snd (insert_document (resume_values uid f) d), True),
              trace := trace w @ [B True, I True, U False]\<rparr>)
     else if fails (Sql Client COMMIT)
     then (Inl (Failed (Sql Client COMMIT)),
           w\<lparr>txn := None, trace := trace w @ [B True, I True, U True, C False]\<rparr>)
     else (case updateProfileCompletion fails uid None
                 (w\<lparr>committed := registered uid f d, txn := None,
                    trace := trace w @ [B True, I True, U True, C True]\<rparr>) of
             (Inl e, w6) \<Rightarrow> (Inl e, w6)
           | (Inr u, w6) \<Rightarrow> (Inr (Status 201 (Resume_row (new_row uid f d))), w6)))"
  using assms
  by (simp add: uploadResume_try_def and_then_def return_def client_begin_def client_query_def
        client_commit_def note_event_def abort_txn_def Let_def new_row_def registered_def
        resume_values_def unset_values_def
        split: prod.splits sum.splits)

lemma uploadResume_catch_eq:
  "uploadResume_catch fails f e w =
     (let p = uploads_path (filename f); R = Query Client ROLLBACK [] in
      if fails (Sql Client ROLLBACK)
      then (Failed (Sql Client ROLLBACK), w\<lparr>txn := None, trace := trace w @ [R False]\<rparr>)
      else if p \<notin> files w then (e, w\<lparr>txn := None, trace := trace w @ [R True]\<rparr>)
      else if fails Unlink
      then (e, w\<lparr>txn := None, trace := trace w @ [R True, Unlinked p False]\<rparr>)
      else (e, w\<lparr>txn := None, files := files w - {p},
                 trace := trace w @ [R True, Unlinked p True]\<rparr>))"
  by (simp add: uploadResume_catch_def client_rollback_def remove_file_def existsSync_def
      unlinkSync_def note_event_def Let_def)

lemma pool_connect_eq:
  "pool_connect fails w =
     (if fails Connect then (Inl (Failed Connect), w\<lparr>trace := trace w @ [Connected False]\<rparr>)
      else (Inr (), w\<lparr>txn := None, trace := trace w @ [Connected True]\<rparr>))"
  by (simp add: pool_connect_def note_event_def)

lemma upc_pool_files [simp]: "files (snd (updateProfileCompletion fails uid None w)) = files w"
  using upc_pool_frame [of fails uid w] by (cases "updateProfileCompletion fails uid None w") simp

lemma upc_pool_txn [simp]: "txn (snd (updateProfileCompletion fails uid None w)) = txn w"
  using upc_pool_frame [of fails uid w] by (cases "updateProfileCompletion fails uid None w") simp

lemma upc_pool_committed:
  "committed (snd (updateProfileCompletion fails uid None w)) =
     (if isl (fst (updateProfileCompletion fails uid None w)) then committed w
      else rescore uid (committed w))"
  using upc_pool_frame [of fails uid w]
  by (cases "updateProfileCompletion fails uid None w") (auto split: sum.splits)

lemma upc_pool_documents [simp]:
  "user_documents (committed (snd (updateProfileCompletion fails uid None w)))
     = user_documents (committed w)"
  by (simp add: upc_pool_committed rescore_tables)


lemmas uploadResume_eqs = uploadResume_def pool_connect_eq uploadResume_try_eq
  uploadResume_catch_eq client_release_def note_event_def Let_def

lemma pool_queries_stmts: "list_all is_pool_query evs \<Longrightarrow> stmts_on Client evs = []"
proof (induction evs)
  case Nil
  show ?case by (simp add: stmts_on_def)
next
  case (Cons e evs)
  then show ?case by (cases e) (auto simp: stmts_on_def)
qed

lemma pool_queries_removals: "list_all is_pool_query evs \<Longrightarrow> removals evs = []"
proof (induction evs)
  case Nil
  show ?case by (simp add: removals_def)
next
  case (Cons e evs)
  then show ?case by (cases e) (auto simp: removals_def)
qed

lemma stmts_on_append: "stmts_on c (xs @ ys) = stmts_on c xs @ stmts_on c ys"
  by (simp add: stmts_on_def)

lemma removals_append: "removals (xs @ ys) = removals xs @ removals ys"
  by (simp add: removals_def)

lemma removals_simps [simp]:
  "removals [] = []" "removals (e # tr) = removed_by e @ removals tr"
  "removals (xs @ ys) = removals xs @ removals ys"
  by (simp_all add: removals_def)

lemma stmts_on_simps [simp]:
  "stmts_on c [] = []" "stmts_on c (e # tr) = stmt_on c e @ stmts_on c tr"
  "stmts_on c (xs @ ys) = stmts_on c xs @ stmts_on c ys"
  by (simp_all add: stmts_on_def)

lemma uploadResume_created:
  assumes "uploadResume fails userId file w = (Status 201 pl, w')"
  shows "\<exists>uid f. userId = Some uid \<and> uid \<noteq> 0 \<and> file = Some f
          \<and> pl = Resume_row (new_row uid f (committed w))
          \<and> committed w' = rescore uid (registered uid f (committed w))
          \<and> files w' = files w \<and> removals (trace w') = removals (trace w)"
  using assms
  by (auto simp: uploadResume_eqs pool_queries_removals
      split: option.splits if_splits prod.splits sum.splits dest!: upc_pool_frame)

lemma uploadResume_documents:
  assumes "uploadResume fails userId file w = (resp, w')"
  shows "user_documents (committed w') = user_documents (committed w)
       \<or> (\<exists>uid f. userId = Some uid \<and> file = Some f
            \<and> user_documents (committed w') = user_documents (registered uid f (committed w)))"
  using assms
  by (auto simp: uploadResume_eqs rescore_tables
      split: option.splits if_splits prod.splits sum.splits dest!: upc_pool_frame)

subsection \<open>The steps of deleteResume\<close>

lemma is_id_SInt_iff [simp]: "is_id (SInt i) n \<longleftrightarrow> int n = i"
  by (auto simp: is_id_def)

lemma remove_file_eq:
  "remove_file fails p w =
     (if p \<notin> files w then w
      else if fails Unlink then w\<lparr>trace := trace w @ [Unlinked p False]\<rparr>
      else w\<lparr>files := files w - {p}, trace := trace w @ [Unlinked p True]\<rparr>)"
  by (simp add: remove_file_def existsSync_def unlinkSync_def note_event_def)

lemma deleteResume_eq:
  "deleteResume fails (Some uid) (Some rid) w =
     (let d = committed w; vals = [SInt rid, SInt (int uid)];
          S = Query Pool SELECT_resume vals; D = Query Pool DELETE_user_documents vals in
      if uid = 0 then (Status 401 No_data, w)
      else if fails (Sql Pool SELECT_resume)
      then (Next (Failed (Sql Pool SELECT_resume)), w\<lparr>trace := trace w @ [S False]\<rparr>)
      else (case fst (select_resume vals d) of
              [] \<Rightarrow> (Status 404 No_data, w\<lparr>trace := trace w @ [S True]\<rparr>)
            | x # _ \<Rightarrow>
                if fails (Sql Pool DELETE_user_documents)
                then (Next (Failed (Sql Pool DELETE_user_documents)),
                      w\<lparr>trace := trace w @ [S True, D False]\<rparr>)
                else if fst (delete_document vals d) = 0
                then (Status 404 No_data,
                      w\<lparr>committed := deleted rid uid d, trace := trace w @ [S True, D True]\<rparr>)
                else (case updateProfileCompletion fails uid None
                             (remove_file fails (storage_url x)
                                (w\<lparr>committed := deleted rid uid d,
                                   trace := trace w @ [S True, D True]\<rparr>)) of
                        (Inl e, w4) \<Rightarrow> (Next e, w4)
                      | (Inr u, w4) \<Rightarrow> (Status 200 No_data, w4))))"
  by (simp add: deleteResume_def pool_query_def note_event_def select_resume_def deleted_def Let_def
      split: prod.splits sum.splits list.splits)

lemma deleteResume_documents:
  assumes "deleteResume fails userId resumeId w = (resp, w')"
  shows "user_documents (committed w') = user_documents (committed w)
       \<or> (\<exists>uid rid. userId = Some uid \<and> resumeId = Some rid
            \<and> user_documents (committed w') = user_documents (deleted rid uid (committed w)))"
proof (cases userId)
  case None
  with assms show ?thesis by (simp add: deleteResume_def)
next
  case u: (Some uid)
  show ?thesis
  proof (cases resumeId)
    case None
    with assms u show ?thesis by (auto simp: deleteResume_def split: if_splits)
  next
    case (Some rid)
    with assms u show ?thesis
      by (auto simp: deleteResume_eq Let_def remove_file_eq rescore_tables
          split: if_splits prod.splits sum.splits list.splits dest!: upc_pool_frame)
  qed
qed


lemma deleteResume_ok:
  assumes "deleteResume fails (Some uid) (Some rid) w = (Status 200 pl, w')"
  shows "uid \<noteq> 0 \<and> committed w' = rescore uid (deleted rid uid (committed w))
          \<and> fst (select_resume [SInt rid, SInt (int uid)] (committed w)) \<noteq> []
          \<and> files w' = (if fails Unlink then files w
               else files w - {storage_url (hd (fst (select_resume [SInt rid, SInt (int uid)] (committed w))))})"
  using assms
  by (simp add: deleteResume_eq Let_def remove_file_eq split_beta upc_pool_committed
          split: if_splits sum.splits list.splits)
     (auto simp: upc_pool_committed)

subsection \<open>The document table\<close>

lemma is_other_id_SInt_iff [simp]: "is_other_id (SInt i) n \<longleftrightarrow> int n \<noteq> i"
  by (auto simp: is_other_id_def)

lemma foldr_max_ge: "x \<in> set xs \<Longrightarrow> x \<le> foldr max xs (0::nat)"
  by (induction xs) auto

lemma fresh_id_fresh: "x \<in> set ds \<Longrightarrow> doc_id x < fresh_id ds"
  using foldr_max_ge [of "doc_id x" "map doc_id ds"] by (simp add: fresh_id_def)

lemma new_row_fields:
  "doc_id (new_row uid f d) = fresh_id (user_documents d)"
  "owner_id (new_row uid f d) = uid"
  "document_type (new_row uid f d) = ''resume''"
  "file_name (new_row uid f d) = originalname f"
  "storage_url (new_row uid f d) = ''/uploads/'' @ filename f"
  "file_size_kb (new_row uid f d) = Math_round (of_nat (file_size f) / 1024)"
  "is_default_resume (new_row uid f d) = True"
  by (simp_all add: new_row_def insert_document_def resume_values_def Let_def int_of_def
      text_of_def bool_of_def)

lemma registered_documents:
  "user_documents (registered uid f d) = map (demote uid) (user_documents d) @ [new_row uid f d]"
proof -
  have old: "(if is_id (SInt (int uid)) (owner_id x) \<and> is_other_id (SInt (int (fresh_id (user_documents d)))) (doc_id x)
                 \<and> document_type x = ''resume''
              then x\<lparr>is_default_resume := False\<rparr> else x) = demote uid x"
    if "x \<in> set (user_documents d)" for x
    using fresh_id_fresh [OF that] by (auto simp: demote_def)
  have "user_documents (snd (insert_document (resume_values uid f) d))
        = user_documents d @ [new_row uid f d]"
    by (simp add: insert_document_def new_row_def Let_def)
  then show ?thesis
    using old
    by (simp add: registered_def unset_default_def unset_values_def new_row_fields cong: map_cong)
qed

lemma registered_other_tables:
  "user_profiles (registered uid f d) = user_profiles d"
  "user_experiences (registered uid f d) = user_experiences d"
  "user_educations (registered uid f d) = user_educations d"
  "user_skills (registered uid f d) = user_skills d"
  "users (registered uid f d) = users d"
  by (simp_all add: registered_def unset_default_def insert_document_def Let_def)

lemma default_resumes_demote:
  "filter (\<lambda>x. owner_id x = u \<and> document_type x = ''resume'' \<and> is_default_resume x)
     (map (demote uid) ds)
   = (if u = uid then []
      else filter (\<lambda>x. owner_id x = u \<and> document_type x = ''resume'' \<and> is_default_resume x) ds)"
  by (induction ds) (auto simp: demote_def)

lemma default_resumes_registered:
  "default_resumes (registered uid f d) u =
     (if u = uid then [new_row uid f d] else default_resumes d u)"
  by (auto simp: default_resumes_def registered_documents default_resumes_demote new_row_fields)

lemma deleted_documents:
  "user_documents (deleted rid uid d)
     = filter (\<lambda>x. \<not> (int (doc_id x) = rid \<and> owner_id x = uid)) (user_documents d)"
  by (simp add: deleted_def delete_document_def)

lemma at_most_one_registered: "at_most_one_default d \<Longrightarrow> at_most_one_default (registered uid f d)"
  by (simp add: at_most_one_default_def default_resumes_registered)

lemma length_filter_conj_le: "length (filter (\<lambda>x. Q x \<and> P x) xs) \<le> length (filter P xs)"
  by (induction xs) auto

lemma at_most_one_deleted:
  assumes "at_most_one_default d"
  shows "at_most_one_default (deleted rid uid d)"
proof -
  have "length (default_resumes (deleted rid uid d) u) \<le> length (default_resumes d u)" for u
    by (simp add: default_resumes_def deleted_documents length_filter_conj_le)
  moreover have "length (default_resumes d u) \<le> 1" for u
    using assms by (simp add: at_most_one_default_def)
  ultimately show ?thesis
    unfolding at_most_one_default_def using le_trans by blast
qed

subsection \<open>The default resume\<close>

lemma at_most_one_documents:
  "user_documents d' = user_documents d \<Longrightarrow> at_most_one_default d' = at_most_one_default d"
  by (simp add: at_most_one_default_def default_resumes_def)

lemma serve_invariant:
  assumes "at_most_one_default (committed w)"
  shows "at_most_one_default (committed (serve r w))"
proof (cases r)
  case (Upload_resume fails userId upload)
  obtain resp w' where run: "uploadResume fails userId upload w = (resp, w')"
    by (cases "uploadResume fails userId upload w")
  have w': "serve r w = w'" using run Upload_resume by simp
  from uploadResume_documents [OF run] show ?thesis
  proof
    assume "user_documents (committed w') = user_documents (committed w)"
    from at_most_one_documents [OF this] show ?thesis
      using assms w' by simp
  next
    assume "\<exists>uid f. userId = Some uid \<and> upload = Some f
             \<and> user_documents (committed w') = user_documents (registered uid f (committed w))"
    then obtain uid f where
      "user_documents (committed w') = user_documents (registered uid f (committed w))"
      by blast
    from at_most_one_documents [OF this] show ?thesis
      using at_most_one_registered [OF assms, of uid f] w' by simp
  qed
next
  case (Delete_resume fails userId resumeId)
  obtain resp w' where run: "deleteResume fails userId resumeId w = (resp, w')"
    by (cases "deleteResume fails userId resumeId w")
  have w': "serve r w = w'" using run Delete_resume by simp
  from deleteResume_documents [OF run] show ?thesis
  proof
    assume "user_documents (committed w') = user_documents (committed w)"
    from at_most_one_documents [OF this] show ?thesis
      using assms w' by simp
  next
    assume "\<exists>uid rid. userId = Some uid \<and> resumeId = Some rid
             \<and> user_documents (committed w') = user_documents (deleted rid uid (committed w))"
    then obtain uid rid where
      "user_documents (committed w') = user_documents (deleted rid uid (committed w))"
      by blast
    from at_most_one_documents [OF this] show ?thesis
      using at_most_one_deleted [OF assms, of rid uid] w' by simp
  qed
qed

lemma serve_all_invariant:
  "at_most_one_default (committed w) \<Longrightarrow> at_most_one_default (committed (serve_all rs w))"
  by (induction rs arbitrary: w) (simp_all add: serve_invariant)

lemma only_default:
  assumes "length (filter P xs) \<le> 1" "x \<in> set xs" "P x"
  shows "filter P xs = [x]"
proof -
  have "x \<in> set (filter P xs)" using assms by simp
  moreover obtain y where "filter P xs = [y]"
    using assms calculation by (cases "filter P xs") (auto simp: le_Suc_eq)
  ultimately show ?thesis by simp
qed

lemma delete_default_leaves_none:
  assumes inv: "at_most_one_default (committed w)"
    and x: "x \<in> set (user_documents (committed w))" "owner_id x = uid"
      "document_type x = ''resume''" "is_default_resume x"
    and run: "deleteResume fails (Some uid) (Some (int (doc_id x))) w = (Status 200 pl, w')"
  shows "default_resumes (committed w') uid = []
       \<and> user_documents (committed w')
           = filter (\<lambda>y. \<not> (doc_id y = doc_id x \<and> owner_id y = uid))
               (user_documents (committed w))"
proof -
  let ?P = "\<lambda>y. owner_id y = uid \<and> document_type y = ''resume'' \<and> is_default_resume y"
  let ?Q = "\<lambda>y. \<not> (doc_id y = doc_id x \<and> owner_id y = uid)"
  have docs: "user_documents (committed w') = filter ?Q (user_documents (committed w))"
    using deleteResume_ok [OF run] by (simp add: rescore_tables deleted_documents)
  have "length (filter ?P (user_documents (committed w))) \<le> 1"
    using inv by (simp add: at_most_one_default_def default_resumes_def)
  then have one: "filter ?P (user_documents (committed w)) = [x]"
    using x by (intro only_default) simp_all
  have "filter ?P (filter ?Q (user_documents (committed w)))
      = filter ?Q (filter ?P (user_documents (committed w)))"
    by (simp add: conj_commute)
  also have "\<dots> = []" using one x by simp
  finally show ?thesis
    using docs by (simp add: default_resumes_def)
qed

text \<open>
  Claim C2. Whatever resume uploads and resume deletions are served one after the other,
  with whatever faults, a database with at most one default resume per user is left with
  at most one default resume per user. And when the default resume of a user is deleted,
  the user has no default resume afterwards and every other row of the table is kept as
  it was: no other resume is promoted.
\<close>

theorem default_resume_invariant:
  "(at_most_one_default (committed w)
      \<longrightarrow> at_most_one_default (committed (serve_all requests w)))
   \<and> (at_most_one_default (committed w) \<and> x \<in> set (user_documents (committed w))
        \<and> owner_id x = uid \<and> document_type x = ''resume'' \<and> is_default_resume x
        \<and> deleteResume fails (Some uid) (Some (int (doc_id x))) w = (Status 200 pl, w')
      \<longrightarrow> default_resumes (committed w') uid = []
          \<and> user_documents (committed w')
              = filter (\<lambda>y. \<not> (doc_id y = doc_id x \<and> owner_id y = uid))
                  (user_documents (committed w)))"
  using serve_all_invariant [of w requests] delete_default_leaves_none [of w x uid fails pl w']
  by blast

theorem default_resume_invariant_witness:
  "at_most_one_default (committed example_world)
   \<and> at_most_one_default
        (committed (serve_all [Upload_resume no_faults (Some 1) (Some resume1),
                               Upload_resume no_faults (Some 1) (Some resume2),
                               Delete_resume no_faults (Some 1) (Some 2)] example_world))
   \<and> at_most_one_default (committed two_resumes_world)
   \<and> default_resumes
        (committed (snd (deleteResume no_faults (Some 1) (Some 2) two_resumes_world))) 1 = []
   \<and> user_documents
        (committed (snd (deleteResume no_faults (Some 1) (Some 2) two_resumes_world)))
       = [row1\<lparr>is_default_resume := False\<rparr>]"
proof -
  let ?requests = "[Upload_resume no_faults (Some 1) (Some resume1),
                    Upload_resume no_faults (Some 1) (Some resume2),
                    Delete_resume no_faults (Some 1) (Some 2)]"
  let ?w' = "snd (deleteResume no_faults (Some 1) (Some 2) two_resumes_world)"
  have a: "at_most_one_default (committed example_world)"
    by (simp add: at_most_one_default_def default_resumes_def example_defs)
  have b: "at_most_one_default (committed two_resumes_world)"
    by (simp add: at_most_one_default_def default_resumes_def example_defs two_resumes_world_def)
  have x: "row2 \<in> set (user_documents (committed two_resumes_world))" "owner_id row2 = 1"
    "document_type row2 = ''resume''" "is_default_resume row2" "int (doc_id row2) = 2"
    by (simp_all add: example_defs two_resumes_world_def)
  have "fst (deleteResume no_faults (Some 1) (Some 2) two_resumes_world) = Status 200 No_data"
    by (simp add: deleteResume_eq Let_def remove_file_eq split_beta updateProfileCompletion_def
        try_pool_eq sql_defs example_defs two_resumes_world_def)
  then have run: "deleteResume no_faults (Some 1) (Some (int (doc_id row2))) two_resumes_world
      = (Status 200 No_data, ?w')"
    using x(5) by (simp add: prod_eq_iff)
  have c: "filter (\<lambda>y. \<not> (doc_id y = doc_id row2 \<and> owner_id y = 1))
             (user_documents (committed two_resumes_world)) = [row1\<lparr>is_default_resume := False\<rparr>]"
    by (simp add: example_defs two_resumes_world_def)
  have 1: "at_most_one_default (committed (serve_all ?requests example_world))"
    using default_resume_invariant [of example_world ?requests] a by blast
  have 2: "default_resumes (committed ?w') 1 = []
       \<and> user_documents (committed ?w')
           = filter (\<lambda>y. \<not> (doc_id y = doc_id row2 \<and> owner_id y = 1))
               (user_documents (committed two_resumes_world))"
    using default_resume_invariant [of two_resumes_world "[]" row2 1 no_faults No_data ?w']
      b x(1-4) run by blast
  show ?thesis
    using a b 1 2 c by simp
qed

subsection \<open>The log of an upload\<close>

lemma upc_pool_trace:
  "\<exists>evs. trace (snd (updateProfileCompletion fails uid None w)) = trace w @ evs
         \<and> list_all is_pool_query evs"
  using upc_pool_frame [of fails uid w] by (cases "updateProfileCompletion fails uid None w") simp

lemma upc_pool_client_stmts [simp]:
  "stmts_on Client (trace (snd (updateProfileCompletion fails uid None w)))
     = stmts_on Client (trace w)"
  using upc_pool_trace [of fails uid w] by (auto simp: pool_queries_stmts)

lemma upc_pool_removals [simp]:
  "removals (trace (snd (updateProfileCompletion fails uid None w))) = removals (trace w)"
  using upc_pool_trace [of fails uid w] by (auto simp: pool_queries_removals)

lemma uploadResume_client_stmts:
  "stmts_on Client (trace (snd (uploadResume fails userId upload (w\<lparr>trace := []\<rparr>))))
     \<in> {[], [BEGIN, ROLLBACK], [BEGIN, INSERT_user_documents, ROLLBACK],
         [BEGIN, INSERT_user_documents, UPDATE_unset_default, ROLLBACK],
         [BEGIN, INSERT_user_documents, UPDATE_unset_default, COMMIT, ROLLBACK],
         [BEGIN, INSERT_user_documents, UPDATE_unset_default, COMMIT]}"
  by (simp add: uploadResume_eqs split_beta split: option.splits sum.splits)



subsection \<open>Uploads, deletions and the stored score\<close>


lemma new_row_registered: "new_row uid f d \<in> set (user_documents (registered uid f d))"
  by (simp add: registered_documents)

lemma demoted_registered:
  "x \<in> set (user_documents d) \<Longrightarrow> demote uid x \<in> set (user_documents (registered uid f d))"
  by (simp add: registered_documents)

lemma default_resumes_rescore: "default_resumes (rescore uid d) u = default_resumes d u"
  by (simp add: default_resumes_def rescore_tables)

text \<open>
  Claim C8, as the code has it. The size recorded in the row of an uploaded document,
  column \<^verbatim>\<open>file_size_kb\<close>, is the size of the file in bytes divided by 1024 and rounded
  to the nearest integer, a half upwards: the number of kilobytes.
\<close>

theorem recorded_size_in_kilobytes:
  assumes "uploadResume fails userId (Some f) w = (Status 201 (Resume_row r), w')"
  shows "file_size_kb r = Math_round (of_nat (file_size f) / 1024)
       \<and> file_size_kb r = (int (file_size f) + 512) div 1024
       \<and> r \<in> set (user_documents (committed w'))"
proof -
  from uploadResume_created [OF assms] obtain uid where
    r: "r = new_row uid f (committed w)"
    and c: "committed w' = rescore uid (registered uid f (committed w))"
    by auto
  show ?thesis
    using r c by (simp add: new_row_fields Math_round_kb rescore_tables new_row_registered)
qed

lemma two_uploads:
  assumes 1: "uploadResume fails1 (Some uid) (Some f1) w = (Status 201 (Resume_row r1), w1)"
    and 2: "uploadResume fails2 (Some uid) (Some f2) w1 = (Status 201 (Resume_row r2), w2)"
  shows "is_default_resume r1 \<and> r1 \<in> set (user_documents (committed w1))
       \<and> default_resumes (committed w1) uid = [r1]
       \<and> is_default_resume r2 \<and> r2 \<in> set (user_documents (committed w2))
       \<and> r1\<lparr>is_default_resume := False\<rparr> \<in> set (user_documents (committed w2))
       \<and> default_resumes (committed w2) uid = [r2] \<and> doc_id r1 \<noteq> doc_id r2
       \<and> files w2 = files w \<and> removals (trace w2) = removals (trace w)"
proof -
  from uploadResume_created [OF 1] have
    r1: "r1 = new_row uid f1 (committed w)"
    and c1: "committed w1 = rescore uid (registered uid f1 (committed w))"
    and f1: "files w1 = files w" "removals (trace w1) = removals (trace w)"
    by auto
  from uploadResume_created [OF 2] have
    r2: "r2 = new_row uid f2 (committed w1)"
    and c2: "committed w2 = rescore uid (registered uid f2 (committed w1))"
    and f2: "files w2 = files w1" "removals (trace w2) = removals (trace w1)"
    by auto
  have in1: "r1 \<in> set (user_documents (committed w1))"
    using r1 c1 by (simp add: rescore_tables new_row_registered)
  have d1: "demote uid r1 = r1\<lparr>is_default_resume := False\<rparr>"
    using r1 by (simp add: demote_def new_row_fields)
  have in2: "r1\<lparr>is_default_resume := False\<rparr> \<in> set (user_documents (committed w2))"
    using demoted_registered [OF in1, of uid f2] d1 c2 by (simp add: rescore_tables)
  have "doc_id r1 < doc_id r2"
    using fresh_id_fresh [OF in1] r2 by (simp add: new_row_fields)
  then show ?thesis
    using r1 r2 c1 c2 f1 f2 in1 in2
    by (simp add: new_row_fields rescore_tables new_row_registered default_resumes_rescore
        default_resumes_registered)
qed

text \<open>
  Claim C6. On its client connection \<^verbatim>\<open>uploadResume\<close> issues \<^verbatim>\<open>BEGIN\<close>, the insert,
  the clearing update and \<^verbatim>\<open>COMMIT\<close> in this order and never the update before the
  insert; a run stops at the first statement that fails and then issues \<^verbatim>\<open>ROLLBACK\<close>.
  After an upload of R1 and an upload of R2 for the same user that both answer 201, R2
  is the one default resume, R1 is in the table with its flag cleared, and no file has
  been removed.
\<close>

theorem insert_then_clear:
  "stmts_on Client (trace (snd (uploadResume fails userId upload (w\<lparr>trace := []\<rparr>))))
     \<in> {[], [BEGIN, ROLLBACK], [BEGIN, INSERT_user_documents, ROLLBACK],
         [BEGIN, INSERT_user_documents, UPDATE_unset_default, ROLLBACK],
         [BEGIN, INSERT_user_documents, UPDATE_unset_default, COMMIT, ROLLBACK],
         [BEGIN, INSERT_user_documents, UPDATE_unset_default, COMMIT]}
   \<and> (uploadResume fails1 (Some uid) (Some f1) w = (Status 201 (Resume_row r1), w1)
        \<and> uploadResume fails2 (Some uid) (Some f2) w1 = (Status 201 (Resume_row r2), w2)
      \<longrightarrow> is_default_resume r1 \<and> r1 \<in> set (user_documents (committed w1))
          \<and> default_resumes (committed w1) uid = [r1]
          \<and> is_default_resume r2 \<and> r2 \<in> set (user_documents (committed w2))
          \<and> r1\<lparr>is_default_resume := False\<rparr> \<in> set (user_documents (committed w2))
          \<and> default_resumes (committed w2) uid = [r2] \<and> doc_id r1 \<noteq> doc_id r2
          \<and> files w2 = files w \<and> removals (trace w2) = removals (trace w))"
  using uploadResume_client_stmts [of fails userId upload w]
    two_uploads [of fails1 uid f1 w r1 w1 fails2 f2 r2 w2]
  by blast




lemma example_score:
  "finalPercentage
      \<lparr>user_id = Suc 0, job_title = None, location = None,
         profile_image_url = Some ''/uploads/old.png'',
         profile_summary = None, professional_summary = None,
         years_of_experience = None, experience_level = None,
         primary_industry = None, profile_completion = x, website_url = None,
         linkedin_url = None, github_url = None\<rparr>
      \<lparr>experience_count = 0, education_count = 0, skill_count = 0,
         resume_count = Suc n\<rparr> = 15"
  by (simp add: scorer_eval)

lemmas upload_eval = uploadResume_eqs updateProfileCompletion_def try_pool_eq split_beta
  resume_values_def unset_values_def new_row_def registered_def rescore_def score_values_def
  profiles_of_def count_rows_def uploads_path_def sql_defs example_defs Math_round_numeral
  example_score

lemma first_upload:
  "uploadResume no_faults (Some 1) (Some resume1) example_world
     = (Status 201 (Resume_row row1),
        example_world
          \<lparr>committed :=
             example_db
               \<lparr>user_documents := [row1],
                user_profiles :=
                  [empty_profile\<lparr>profile_image_url := Some ''/uploads/old.png'',
                                 profile_completion := 15\<rparr>]\<rparr>,
           trace :=
             [Connected True, Query Client BEGIN [] True,
              Query Client INSERT_user_documents
                [SInt 1, SText ''resume'', SText ''first.pdf'', SText ''/uploads/cv1.pdf'',
                 SInt 2, SBool True] True,
              Query Client UPDATE_unset_default [SInt 1, SInt 1] True,
              Query Client COMMIT [] True,
              Query Pool SELECT_counts [SInt 1] True,
              Query Pool SELECT_profile [SInt 1] True,
              Query Pool UPDATE_profile_completion [SInt 15, SInt 1] True,
              Released]\<rparr>)"
  by (simp add: upload_eval)

lemma second_upload:
  "fst (uploadResume no_faults (Some 1) (Some resume2)
          (snd (uploadResume no_faults (Some 1) (Some resume1) example_world)))
     = Status 201 (Resume_row row2)"
  by (simp add: first_upload) (simp add: upload_eval)


lemma first_upload_run:
  "uploadResume no_faults (Some 1) (Some resume1) example_world
     = (Status 201 (Resume_row row1),
        snd (uploadResume no_faults (Some 1) (Some resume1) example_world))"
  by (simp only: first_upload snd_conv)

theorem recorded_size_in_kilobytes_witness:
  "file_size_kb row1 = Math_round (of_nat (file_size resume1) / 1024)
   \<and> file_size_kb row1 = (int (file_size resume1) + 512) div 1024
   \<and> row1 \<in> set (user_documents
                   (committed (snd (uploadResume no_faults (Some 1) (Some resume1) example_world))))"
  by (rule recorded_size_in_kilobytes [OF first_upload_run])

text \<open>
  Claim C8 as stated has the recorded size equal to the size in bytes. A file of 2048
  bytes is recorded with size 2.
\<close>

theorem recorded_size_in_kilobytes_counterexample:
  "fst (uploadResume no_faults (Some 1) (Some resume1) example_world)
     = Status 201 (Resume_row row1)
   \<and> file_size resume1 = 2048 \<and> file_size_kb row1 = 2"
  by (simp only: first_upload fst_conv) (simp add: example_defs)

theorem insert_then_clear_witness:
  "stmts_on Client (trace (snd (uploadResume no_faults (Some 1) (Some resume1) example_world)))
     = [BEGIN, INSERT_user_documents, UPDATE_unset_default, COMMIT]
   \<and> fst (uploadResume no_faults (Some 1) (Some resume1) example_world)
       = Status 201 (Resume_row row1)
   \<and> fst (uploadResume no_faults (Some 1) (Some resume2)
            (snd (uploadResume no_faults (Some 1) (Some resume1) example_world)))
       = Status 201 (Resume_row row2)
   \<and> is_default_resume row2
   \<and> row2 \<in> set (user_documents (committed
          (snd (uploadResume no_faults (Some 1) (Some resume2)
             (snd (uploadResume no_faults (Some 1) (Some resume1) example_world))))))
   \<and> row1\<lparr>is_default_resume := False\<rparr> \<in> set (user_documents (committed
          (snd (uploadResume no_faults (Some 1) (Some resume2)
             (snd (uploadResume no_faults (Some 1) (Some resume1) example_world))))))
   \<and> default_resumes (committed
          (snd (uploadResume no_faults (Some 1) (Some resume2)
             (snd (uploadResume no_faults (Some 1) (Some resume1) example_world))))) 1 = [row2]
   \<and> files (snd (uploadResume no_faults (Some 1) (Some resume2)
             (snd (uploadResume no_faults (Some 1) (Some resume1) example_world))))
       = files example_world
   \<and> removals (trace (snd (uploadResume no_faults (Some 1) (Some resume2)
             (snd (uploadResume no_faults (Some 1) (Some resume1) example_world))))) = []"
proof -
  let ?w1 = "snd (uploadResume no_faults (Some 1) (Some resume1) example_world)"
  let ?w2 = "snd (uploadResume no_faults (Some 1) (Some resume2) ?w1)"
  have 1: "uploadResume no_faults (Some 1) (Some resume1) example_world
            = (Status 201 (Resume_row row1), ?w1)"
    by (simp only: first_upload snd_conv)
  have 2: "uploadResume no_faults (Some 1) (Some resume2) ?w1 = (Status 201 (Resume_row row2), ?w2)"
    using second_upload by (simp add: prod_eq_iff)
  have f1: "fst (uploadResume no_faults (Some 1) (Some resume1) example_world)
            = Status 201 (Resume_row row1)"
    by (simp only: first_upload fst_conv)
  have 3: "stmts_on Client (trace ?w1) = [BEGIN, INSERT_user_documents, UPDATE_unset_default, COMMIT]"
    by (simp only: first_upload snd_conv) simp
  have 4: "removals (trace example_world) = []"
    by (simp add: example_world_def)
  show ?thesis
    using insert_then_clear [where fails = no_faults and userId = "Some 1"
        and upload = "Some resume1" and w = example_world and ?fails1.0 = no_faults and uid = 1
        and ?f1.0 = resume1 and ?r1.0 = row1 and ?w1.0 = ?w1 and ?fails2.0 = no_faults
        and ?f2.0 = resume2 and ?r2.0 = row2 and ?w2.0 = ?w2] 1 2 3 4 f1 second_upload
    by (simp add: example_world_def)
qed



end
